theory Spec2Isabelle
  imports Main "HOL-Library.AList"
begin

section \<open>Python values\<close>

text \<open>
  The values that travel through \<^verbatim>\<open>Modify\<close> (bases/modify.py): the entries of a datum
  and the attributes of a record instance. Strings are ASCII; floats are left out (the code
  never inspects one). A \<^verbatim>\<open>decimal.Decimal\<close> is kept as the constructor stores it: sign,
  coefficient and exponent of a finite number, or one of the special values.
\<close>

datatype decimal =
    Finite bool nat int
  | Infinity bool
  | NaN bool bool nat

datatype pyval =
    PNone
  | PBool bool
  | PInt int
  | PDecimal decimal
  | PStr string
  | PDateTime int
  | PDict "(string \<times> pyval) list"
  | PList "pyval list"
  | PInst nat

type_synonym datum = "(string \<times> pyval) list"

abbreviation SEARCH_BY :: string where
  "SEARCH_BY \<equiv> ''__SEARCH_BY__''"

abbreviation NEXT_ID_IF_NOT_EXISTS :: string where
  "NEXT_ID_IF_NOT_EXISTS \<equiv> ''__NEXT_ID_IF_NOT_EXISTS__''"

abbreviation PARENT :: string where
  "PARENT \<equiv> ''__PARENT__''"

text \<open>Python's truth value of an object, as \<^verbatim>\<open>if value:\<close> tests it.\<close>

fun truthy :: "pyval \<Rightarrow> bool" where
  "truthy PNone = False"
| "truthy (PBool b) = b"
| "truthy (PInt i) = (i \<noteq> 0)"
| "truthy (PDecimal (Finite s c e)) = (c \<noteq> 0)"
| "truthy (PDecimal (Infinity s)) = True"
| "truthy (PDecimal (NaN s q d)) = True"
| "truthy (PStr s) = (s \<noteq> [])"
| "truthy (PDateTime t) = True"
| "truthy (PDict kvs) = (kvs \<noteq> [])"
| "truthy (PList xs) = (xs \<noteq> [])"
| "truthy (PInst r) = True"

text \<open>
  A dict is an association list in insertion order with one entry per key:
  \<^verbatim>\<open>d[k] = v\<close> is \<open>AList.update\<close>, \<^verbatim>\<open>del d[k]\<close> is \<open>AList.delete\<close>,
  \<^verbatim>\<open>d.get(k)\<close> is \<open>dict_get\<close> and \<^verbatim>\<open>k in d\<close> is \<open>dict_has\<close>.
\<close>

definition dict_get :: "datum \<Rightarrow> string \<Rightarrow> pyval" where
  "dict_get d k = (case map_of d k of None \<Rightarrow> PNone | Some v \<Rightarrow> v)"

definition dict_has :: "datum \<Rightarrow> string \<Rightarrow> bool" where
  "dict_has d k = (map_of d k \<noteq> None)"

definition dict_keys :: "datum \<Rightarrow> string list" where
  "dict_keys d = remdups (map fst d)"

section \<open>The string constructor of decimal.Decimal\<close>

text \<open>
  \<^verbatim>\<open>Decimal(value)\<close> for a string strips surrounding whitespace, removes every underscore
  and matches the rest against the pattern of the decimal module:
  an optional sign, then either a number with at least one digit (integer part, optional
  fraction, optional exponent), an infinity, or a NaN with optional diagnostic digits;
  letters in any case. No match raises \<^verbatim>\<open>InvalidOperation\<close>, here \<open>None\<close>.

  The constructor converts exactly or not at all, within the limits of the module (the
  C implementation on a 64-bit build): a coefficient or a fraction of more than
  \<^verbatim>\<open>MAX_PREC\<close> digits, an adjusted exponent above \<^verbatim>\<open>MAX_EMAX\<close> or an exponent below
  \<^verbatim>\<open>MIN_ETINY\<close> raises \<^verbatim>\<open>InvalidOperation\<close> too, as does a NaN whose diagnostic has
  more than \<^verbatim>\<open>MAX_PREC\<close> digits.
\<close>

definition MAX_PREC :: int where
  "MAX_PREC = 999999999999999999"

definition MAX_EMAX :: int where
  "MAX_EMAX = 999999999999999999"

definition MIN_ETINY :: int where
  "MIN_ETINY = - 1999999999999999997"

text \<open>The digits of a coefficient, without its leading zeros.\<close>

definition significant :: "string \<Rightarrow> string" where
  "significant ds = dropWhile (\<lambda>c. c = CHR ''0'') ds"

definition is_space :: "char \<Rightarrow> bool" where
  "is_space c = (c \<in> set [CHR '' '', CHR 0x09, CHR 0x0A, CHR 0x0B, CHR 0x0C, CHR 0x0D,
                           CHR 0x1C, CHR 0x1D, CHR 0x1E, CHR 0x1F])"

definition strip :: "string \<Rightarrow> string" where
  "strip s = rev (dropWhile is_space (rev (dropWhile is_space s)))"

definition is_digit :: "char \<Rightarrow> bool" where
  "is_digit c = (c \<in> set ''0123456789'')"

definition digit_val :: "char \<Rightarrow> nat" where
  "digit_val c = of_char c - 48"

definition int_of_digits :: "string \<Rightarrow> nat" where
  "int_of_digits ds = foldl (\<lambda>a c. 10 * a + digit_val c) 0 ds"

definition lower :: "char \<Rightarrow> char" where
  "lower c = (if c \<in> set ''ABCDEFGHIJKLMNOPQRSTUVWXYZ'' then char_of (of_char c + (32::nat)) else c)"

definition exponent_of_digits :: "string \<Rightarrow> int" where
  "exponent_of_digits ds = foldl (\<lambda>a c. 10 * a + int (digit_val c)) 0 ds"

text \<open>The pattern's exponent \<^verbatim>\<open>(E[-+]?\d+)?\<close> followed by the end of the string.\<close>

definition parse_exponent :: "string \<Rightarrow> int option" where
  "parse_exponent s =
     (case s of
        [] \<Rightarrow> Some 0
      | e # r \<Rightarrow>
          if lower e \<noteq> CHR ''e'' then None
          else
            (let (neg, ds) = (case r of
                                [] \<Rightarrow> (False, r)
                              | c # r' \<Rightarrow> if c = CHR ''-'' then (True, r')
                                         else if c = CHR ''+'' then (False, r')
                                         else (False, r))
             in if ds \<noteq> [] \<and> list_all is_digit ds
                then Some (if neg then - exponent_of_digits ds else exponent_of_digits ds)
                else None))"

text \<open>The finite branch: \<^verbatim>\<open>(?=\d|\.\d)\d*(\.\d*)?(E[-+]?\d+)?\<close>.\<close>

definition parse_finite :: "bool \<Rightarrow> string \<Rightarrow> decimal option" where
  "parse_finite sign s =
     (let intpart = takeWhile is_digit s;
          r1 = dropWhile is_digit s;
          (fracpart, r2) = (case r1 of
                              [] \<Rightarrow> ([], r1)
                            | c # r \<Rightarrow> if c = CHR ''.''
                                       then (takeWhile is_digit r, dropWhile is_digit r)
                                       else ([], r1))
      in if intpart = [] \<and> fracpart = [] then None
         else (case parse_exponent r2 of
                 None \<Rightarrow> None
               | Some ex \<Rightarrow>
                   (let ndigits = max 1 (int (length (significant (intpart @ fracpart))));
                        exponent = ex - int (length fracpart)
                    in if int (length fracpart) \<le> MAX_PREC \<and> ndigits \<le> MAX_PREC
                          \<and> MIN_ETINY \<le> exponent \<and> exponent + ndigits - 1 \<le> MAX_EMAX
                       then Some (Finite sign (int_of_digits (intpart @ fracpart)) exponent)
                       else None)))"

text \<open>The special values: \<^verbatim>\<open>Inf(inity)?\<close> and \<^verbatim>\<open>s?NaN\d*\<close>.\<close>

definition parse_special :: "bool \<Rightarrow> string \<Rightarrow> decimal option" where
  "parse_special sign s =
     (let l = map lower s in
      if l = ''inf'' \<or> l = ''infinity'' then Some (Infinity sign)
      else if take 3 l = ''nan'' \<and> list_all is_digit (drop 3 l)
              \<and> int (length (significant (drop 3 l))) \<le> MAX_PREC
        then Some (NaN sign False (int_of_digits (drop 3 l)))
      else if take 4 l = ''snan'' \<and> list_all is_digit (drop 4 l)
              \<and> int (length (significant (drop 4 l))) \<le> MAX_PREC
        then Some (NaN sign True (int_of_digits (drop 4 l)))
      else None)"

definition Decimal :: "string \<Rightarrow> decimal option" where
  "Decimal v =
     (let s = filter (\<lambda>c. c \<noteq> CHR ''_'') (strip v);
          (sign, r) = (case s of
                         [] \<Rightarrow> (False, s)
                       | c # r' \<Rightarrow> if c = CHR ''-'' then (True, r')
                                  else if c = CHR ''+'' then (False, r')
                                  else (False, s))
      in case parse_finite sign r of
           Some d \<Rightarrow> Some d
         | None \<Rightarrow> parse_special sign r)"

section \<open>Record schemas and errors\<close>

text \<open>
  What the code reads from \<^verbatim>\<open>model.__mapper__\<close> and from the class: the columns in
  declaration order, each with its attribute key (\<^verbatim>\<open>columns.keys()\<close>), its own key and name,
  its type and its unique flag; the primary-key columns; the relationships (key and referenced
  model); the synonyms (key and the column \<^verbatim>\<open>_proxied_property.columns[0]\<close>); and the other
  members of the class that \<^verbatim>\<open>hasattr\<close> finds. The column types stand for the SQLAlchemy
  classes the code tests with \<^verbatim>\<open>isinstance\<close>.
\<close>

datatype coltype =
  Integer | BigInteger | Float | Numeric | String | Text | DateTime | UUID | Boolean | JSON

fun isinstance_Integer :: "coltype \<Rightarrow> bool" where
  "isinstance_Integer Integer = True"
| "isinstance_Integer BigInteger = True"
| "isinstance_Integer t = False"

fun isinstance_Float_Numeric :: "coltype \<Rightarrow> bool" where
  "isinstance_Float_Numeric Float = True"
| "isinstance_Float_Numeric Numeric = True"
| "isinstance_Float_Numeric t = False"

fun isinstance_String :: "coltype \<Rightarrow> bool" where
  "isinstance_String String = True"
| "isinstance_String Text = True"
| "isinstance_String t = False"

record column =
  col_attr :: string
  col_key :: string
  col_name :: string
  col_type :: coltype
  col_unique :: bool

datatype member = ReadOnlyProperty | SettableProperty | OtherMember

record schema =
  tablename :: string
  columns :: "column list"
  primary_key :: "column list"
  relationships :: "(string \<times> string) list"
  synonyms :: "(string \<times> column) list"
  members :: "(string \<times> member) list"

text \<open>
  The exceptions. An \<^verbatim>\<open>ApiErrors\<close> subclass carries its \<^verbatim>\<open>errors\<close> dict, from a field to
  the list of its messages; \<open>add_error\<close> is the method of api_errors.py.
\<close>

type_synonym errors = "(string \<times> string list) list"

datatype exn =
    DateTimeCastError errors
  | DecimalCastError errors
  | UuidCastError errors
  | EmptyFilterError errors
  | ResourceNotFoundError errors
  | ResourceGoneError errors
  | TypeError
  | KeyError string
  | AttributeError string

definition add_error :: "errors \<Rightarrow> string \<Rightarrow> string \<Rightarrow> errors" where
  "add_error errs field error =
     (case map_of errs field of
        Some msgs \<Rightarrow> AList.update field (msgs @ [error]) errs
      | None \<Rightarrow> AList.update field [error] errs)"

section \<open>Instances, the session and the collaborators\<close>

text \<open>
  An instance is an object on the heap: its class and its attribute dict. The state also holds
  the counter of allocated objects, the instances given to \<^verbatim>\<open>session.add\<close>, the last value of
  every sequence, and the number of lookups sent to the persistence engine.
\<close>

record obj =
  cls :: string
  attrs :: datum

record state =
  heap :: "(nat \<times> obj) list"
  next_ref :: nat
  session :: "nat list"
  sequences :: "(string \<times> int) list"
  queries :: nat

text \<open>
  The collaborators the module imports or reaches through the session, none of them in
  bases/modify.py, are parameters of the model: every theorem holds for each choice of them.
  \<^item> \<open>schema_of\<close>: the schema of a model, by class name;
  \<^item> \<open>dehumanize_if_needed\<close>, \<open>humanize\<close>: the identifier decoding and encoding;
  \<^item> \<open>nesting_datum_from\<close>: the datum normalisation of utils/datum;
  \<^item> \<open>deserialize_datetime\<close>: \<open>None\<close> when it raises \<^verbatim>\<open>TypeError\<close>;
  \<^item> \<open>uuid_UUID\<close>: whether \<^verbatim>\<open>uuid.UUID(value)\<close> accepts the string (else \<^verbatim>\<open>ValueError\<close>);
  \<^item> \<open>repr\<close>: Python's \<^verbatim>\<open>%r\<close>;
  \<^item> \<open>check_not_soft_deleted\<close>: the error the soft-delete guard raises for an instance, if any;
  \<^item> \<open>query_first\<close>: \<^verbatim>\<open>model.query.filter_by(**filters).first()\<close>;
  \<^item> \<open>query_get\<close>: \<^verbatim>\<open>model.query.get(primary_values)\<close>;
  \<^item> \<open>session_flush\<close>: what a flush does to the state;
  \<^item> \<open>getattr_member\<close>: the value read from a class member that is not a stored attribute;
  \<^item> \<open>rank\<close>: the order in which a Python \<^verbatim>\<open>set\<close> of strings is iterated.
\<close>

record env =
  schema_of :: "string \<Rightarrow> schema"
  dehumanize_if_needed :: "column \<Rightarrow> pyval \<Rightarrow> pyval"
  humanize :: "pyval \<Rightarrow> pyval"
  nesting_datum_from :: "datum \<Rightarrow> datum"
  deserialize_datetime :: "string \<Rightarrow> pyval \<Rightarrow> pyval option"
  uuid_UUID :: "string \<Rightarrow> bool"
  repr :: "pyval \<Rightarrow> string"
  check_not_soft_deleted :: "obj \<Rightarrow> exn option"
  query_first :: "state \<Rightarrow> string \<Rightarrow> datum \<Rightarrow> nat option"
  query_get :: "state \<Rightarrow> string \<Rightarrow> pyval list \<Rightarrow> nat option"
  session_flush :: "state \<Rightarrow> state"
  getattr_member :: "obj \<Rightarrow> string \<Rightarrow> pyval"
  rank :: "string \<Rightarrow> nat"

type_synonym 'a result = "(exn + 'a) \<times> state"

text \<open>
  \<^verbatim>\<open>setattr(self, key, value)\<close>: a synonym proxies the write to the attribute of the column
  it names; any other key is stored under its own name.
\<close>

definition attr_target :: "schema \<Rightarrow> string \<Rightarrow> string" where
  "attr_target sch key = (case map_of (synonyms sch) key of Some c \<Rightarrow> col_attr c | None \<Rightarrow> key)"

definition setattr :: "env \<Rightarrow> nat \<Rightarrow> string \<Rightarrow> pyval \<Rightarrow> state \<Rightarrow> state" where
  "setattr e self key v st =
     (case map_of (heap st) self of
        None \<Rightarrow> st
      | Some ob \<Rightarrow>
          st\<lparr>heap := AList.update self
                 (ob\<lparr>attrs := AList.update (attr_target (schema_of e (cls ob)) key) v (attrs ob)\<rparr>)
                 (heap st)\<rparr>)"

section \<open>The attribute coercer\<close>

definition try_to_set_attribute_with_deserialized_datetime ::
    "env \<Rightarrow> nat \<Rightarrow> column \<Rightarrow> string \<Rightarrow> pyval \<Rightarrow> state \<Rightarrow> unit result" where
  "try_to_set_attribute_with_deserialized_datetime e self col key v st =
     (case deserialize_datetime e key v of
        Some datetime_value \<Rightarrow> (Inr (), setattr e self key datetime_value st)
      | None \<Rightarrow>
          (Inl (DateTimeCastError (add_error [] (col_name col)
                 (''Invalid value for '' @ key @ '' (datetime): '' @ repr e v))), st))"

definition try_to_set_attribute_with_uuid ::
    "env \<Rightarrow> nat \<Rightarrow> column \<Rightarrow> string \<Rightarrow> string \<Rightarrow> state \<Rightarrow> unit result" where
  "try_to_set_attribute_with_uuid e self col key v st =
     (if uuid_UUID e v then (Inr (), setattr e self key (PStr v) st)
      else (Inl (UuidCastError (add_error [] (col_name col)
                   (''Invalid value for '' @ key @ '' (uuid): '' @ repr e (PStr v)))), st))"

definition try_to_set_attribute_with_decimal_value ::
    "env \<Rightarrow> nat \<Rightarrow> column \<Rightarrow> string \<Rightarrow> string \<Rightarrow> string \<Rightarrow> state \<Rightarrow> unit result" where
  "try_to_set_attribute_with_decimal_value e self col key v expected_format st =
     (case Decimal v of
        Some d \<Rightarrow> (Inr (), setattr e self key (PDecimal d) st)
      | None \<Rightarrow>
          (Inl (DecimalCastError (add_error [] (col_name col)
                 (''Invalid value for '' @ key @ '' ('' @ expected_format @ ''): ''
                    @ [CHR 0x27] @ v @ [CHR 0x27]))), st))"

definition try_to_set_attribute ::
    "env \<Rightarrow> nat \<Rightarrow> column \<Rightarrow> string \<Rightarrow> pyval \<Rightarrow> state \<Rightarrow> unit result" where
  "try_to_set_attribute e self column key v0 st =
     (let v = dehumanize_if_needed e column v0 in
      case v of
        PStr s \<Rightarrow>
          if isinstance_Integer (col_type column)
            then try_to_set_attribute_with_decimal_value e self column key s ''integer'' st
          else if isinstance_Float_Numeric (col_type column)
            then try_to_set_attribute_with_decimal_value e self column key s ''float'' st
          else if isinstance_String (col_type column)
            then (Inr (), setattr e self key (PStr (if s \<noteq> [] then strip s else s)) st)
          else if col_type column = DateTime
            then try_to_set_attribute_with_deserialized_datetime e self column key v st
          else if col_type column = UUID
            then try_to_set_attribute_with_uuid e self column key s st
          else (Inr (), st)
      | PDateTime t \<Rightarrow> (Inr (), setattr e self key v st)
      | _ \<Rightarrow>
          if col_type column = DateTime
            then try_to_set_attribute_with_deserialized_datetime e self column key v st
          else (Inr (), setattr e self key v st))"

text \<open>
  What a coercion does, apart from the instance it is applied to: it assigns a value, it
  leaves the field alone, or it raises. \<open>coerce\<close> reads \<^verbatim>\<open>_try_to_set_attribute\<close> and its
  three helpers this way; \<open>apply_outcome\<close> carries the outcome out on an instance.
\<close>

datatype outcome = Assign pyval | Skip | Raise exn

definition coerce :: "env \<Rightarrow> column \<Rightarrow> string \<Rightarrow> pyval \<Rightarrow> outcome" where
  "coerce e column key v0 =
     (let v = dehumanize_if_needed e column v0;
          datetime = (case deserialize_datetime e key v of
                        Some datetime_value \<Rightarrow> Assign datetime_value
                      | None \<Rightarrow>
                          Raise (DateTimeCastError (add_error [] (col_name column)
                            (''Invalid value for '' @ key @ '' (datetime): '' @ repr e v))));
          decimal = (\<lambda>s expected_format.
                       case Decimal s of
                         Some d \<Rightarrow> Assign (PDecimal d)
                       | None \<Rightarrow>
                           Raise (DecimalCastError (add_error [] (col_name column)
                             (''Invalid value for '' @ key @ '' ('' @ expected_format @ ''): ''
                                @ [CHR 0x27] @ s @ [CHR 0x27]))))
      in case v of
           PStr s \<Rightarrow>
             if isinstance_Integer (col_type column) then decimal s ''integer''
             else if isinstance_Float_Numeric (col_type column) then decimal s ''float''
             else if isinstance_String (col_type column)
               then Assign (PStr (if s \<noteq> [] then strip s else s))
             else if col_type column = DateTime then datetime
             else if col_type column = UUID then
               (if uuid_UUID e s then Assign (PStr s)
                else Raise (UuidCastError (add_error [] (col_name column)
                       (''Invalid value for '' @ key @ '' (uuid): '' @ repr e (PStr s)))))
             else Skip
         | PDateTime t \<Rightarrow> Assign v
         | _ \<Rightarrow> if col_type column = DateTime then datetime else Assign v)"

definition apply_outcome :: "env \<Rightarrow> nat \<Rightarrow> string \<Rightarrow> outcome \<Rightarrow> state \<Rightarrow> unit result" where
  "apply_outcome e self key oc st =
     (case oc of
        Assign w \<Rightarrow> (Inr (), setattr e self key w st)
      | Skip \<Rightarrow> (Inr (), st)
      | Raise x \<Rightarrow> (Inl x, st))"

section \<open>The filter builder\<close>

text \<open>
  Iterating a Python \<^verbatim>\<open>set\<close> visits each element once, in an order the language does not
  fix: here the order of \<open>rank\<close>, a parameter.
\<close>

definition set_iter :: "(string \<Rightarrow> nat) \<Rightarrow> string list \<Rightarrow> string list" where
  "set_iter rk xs = sort_key rk (remdups xs)"

text \<open>\<^verbatim>\<open>set(schema_keys).intersection(keys)\<close>, as the loops iterate it.\<close>

definition intersection :: "env \<Rightarrow> string list \<Rightarrow> string list \<Rightarrow> string list" where
  "intersection e schema_keys datum_keys =
     set_iter (rank e) (filter (\<lambda>k. k \<in> set datum_keys) schema_keys)"

text \<open>\<^verbatim>\<open>dict(pairs)\<close> and \<^verbatim>\<open>{**a, **b}\<close>: later entries overwrite earlier ones.\<close>

definition dict_merge :: "datum \<Rightarrow> datum \<Rightarrow> datum" where
  "dict_merge a b = foldl (\<lambda>d (k, v). AList.update k v d) a b"

definition columns_get :: "schema \<Rightarrow> string \<Rightarrow> column option" where
  "columns_get sch key = List.find (\<lambda>c. col_attr c = key) (columns sch)"

definition primary_filter_from :: "env \<Rightarrow> string \<Rightarrow> datum \<Rightarrow> datum" where
  "primary_filter_from e model v =
     dict_merge []
       (map (\<lambda>column. (col_key column, dehumanize_if_needed e column (dict_get v (col_key column))))
            (primary_key (schema_of e model)))"

fun unique_filter_loop :: "env \<Rightarrow> column list \<Rightarrow> datum \<Rightarrow> datum option" where
  "unique_filter_loop e [] v = None"
| "unique_filter_loop e (unique_column # unique_columns) v =
     (if dict_has v (col_key unique_column) then
        (let unique_value = dict_get v (col_key unique_column) in
         if truthy unique_value
         then Some [(col_key unique_column, dehumanize_if_needed e unique_column unique_value)]
         else unique_filter_loop e unique_columns v)
      else unique_filter_loop e unique_columns v)"

definition unique_filter_from :: "env \<Rightarrow> string \<Rightarrow> datum \<Rightarrow> datum option" where
  "unique_filter_from e model v =
     unique_filter_loop e (filter col_unique (columns (schema_of e model))) v"

text \<open>
  \<^verbatim>\<open>set(search_by_keys)\<close>: a dict or a list among the elements is unhashable
  (\<^verbatim>\<open>TypeError\<close>); an element that is not a string equals no key of the schema.
\<close>

fun py_set :: "pyval list \<Rightarrow> exn + string list" where
  "py_set [] = Inr []"
| "py_set (PDict d # xs) = Inl TypeError"
| "py_set (PList l # xs) = Inl TypeError"
| "py_set (PStr s # xs) = (case py_set xs of Inl x \<Rightarrow> Inl x | Inr ks \<Rightarrow> Inr (s # ks))"
| "py_set (v # xs) = py_set xs"

definition filter_from :: "env \<Rightarrow> string \<Rightarrow> datum \<Rightarrow> exn + datum" where
  "filter_from e model datum =
     (if \<not> dict_has datum SEARCH_BY \<or> \<not> truthy (dict_get datum SEARCH_BY) then
        (case unique_filter_from e model datum of
           Some unique_filter \<Rightarrow> Inr unique_filter
         | None \<Rightarrow> Inr (primary_filter_from e model datum))
      else
        (let sch = schema_of e model;
             search_by_keys = (case dict_get datum SEARCH_BY of PList xs \<Rightarrow> xs | v \<Rightarrow> [v])
         in case py_set search_by_keys of
              Inl x \<Rightarrow> Inl x
            | Inr search_by_keys \<Rightarrow>
               (let column_keys = intersection e (map col_attr (columns sch)) search_by_keys;
                    filter_dict = foldl (\<lambda>fd key.
                        case columns_get sch key of
                          Some column \<Rightarrow>
                            AList.update key (dehumanize_if_needed e column (dict_get datum key)) fd
                        | None \<Rightarrow> fd) [] column_keys;
                    relationship_keys =
                      intersection e (map fst (relationships sch)) search_by_keys;
                    filter_dict = foldl (\<lambda>fd key.
                        if key \<in> set search_by_keys then AList.update key (dict_get datum key) fd
                        else fd) filter_dict relationship_keys;
                    synonym_keys = intersection e (map fst (synonyms sch)) search_by_keys;
                    filter_dict = foldl (\<lambda>fd key.
                        case map_of (synonyms sch) key of
                          Some column \<Rightarrow>
                            if key \<in> set search_by_keys
                            then AList.update key
                                   (dehumanize_if_needed e column (dict_get datum key)) fd
                            else fd
                        | None \<Rightarrow> fd) filter_dict synonym_keys
                in Inr filter_dict)))"

section \<open>The resolver\<close>

text \<open>
  A lookup: inside \<^verbatim>\<open>session.no_autoflush\<close> it only reads; outside, the session flushes
  before it reads.
\<close>

definition query_filter_by_first ::
    "env \<Rightarrow> bool \<Rightarrow> string \<Rightarrow> datum \<Rightarrow> state \<Rightarrow> nat option \<times> state" where
  "query_filter_by_first e with_no_autoflush model filters st =
     (let st1 = (if with_no_autoflush then st else session_flush e st)
      in (query_first e st1 model filters, st1\<lparr>queries := Suc (queries st1)\<rparr>))"

definition query_get_values ::
    "env \<Rightarrow> bool \<Rightarrow> string \<Rightarrow> pyval list \<Rightarrow> state \<Rightarrow> nat option \<times> state" where
  "query_get_values e with_no_autoflush model primary_values st =
     (let st1 = (if with_no_autoflush then st else session_flush e st)
      in (query_get e st1 model primary_values, st1\<lparr>queries := Suc (queries st1)\<rparr>))"

text \<open>\<^verbatim>\<open>', '.join(items)\<close>: every item must be a string.\<close>

fun join :: "pyval list \<Rightarrow> exn + string" where
  "join [] = Inr []"
| "join [PStr s] = Inr s"
| "join (PStr s # xs) = (case join xs of Inl x \<Rightarrow> Inl x | Inr r \<Rightarrow> Inr (s @ '', '' @ r))"
| "join (v # xs) = Inl TypeError"

definition find_py :: "env \<Rightarrow> string \<Rightarrow> datum \<Rightarrow> bool \<Rightarrow> state \<Rightarrow> pyval result" where
  "find_py e model datum with_no_autoflush st =
     (case filter_from e model datum of
        Inl x \<Rightarrow> (Inl x, st)
      | Inr filters \<Rightarrow>
          if filters = [] then
            (if \<not> dict_has datum SEARCH_BY then (Inl (KeyError SEARCH_BY), st)
             else
               (let search_by = dict_get datum SEARCH_BY
                in case (case search_by of
                           PList xs \<Rightarrow> join xs
                         | PStr s \<Rightarrow> Inr s
                         | v \<Rightarrow> Inl TypeError) of
                     Inl x \<Rightarrow> (Inl x, st)
                   | Inr names \<Rightarrow>
                       (Inl (EmptyFilterError (add_error [] ''_filter_from''
                               (''None of filters found among: '' @ names))), st)))
          else
            (let (entity, st') = query_filter_by_first e with_no_autoflush model filters st
             in case entity of
                  None \<Rightarrow> (Inr PNone, st')
                | Some r \<Rightarrow> (Inr (PInst r), st')))"

text \<open>
  \<^verbatim>\<open>db.session.execute(Sequence(name))\<close>: the sequence advances by one and gives its new
  value.
\<close>

definition session_execute :: "string \<Rightarrow> state \<Rightarrow> int \<times> state" where
  "session_execute seq st =
     (let v = (case map_of (sequences st) seq of Some x \<Rightarrow> x | None \<Rightarrow> 0) + 1
      in (v, st\<lparr>sequences := AList.update seq v (sequences st)\<rparr>))"

definition created_from :: "env \<Rightarrow> string \<Rightarrow> datum \<Rightarrow> state \<Rightarrow> datum \<times> state" where
  "created_from e model datum st =
     (if dict_has datum ''id'' \<and> dict_get datum ''id'' = PStr NEXT_ID_IF_NOT_EXISTS then
        (let (v, st') = session_execute (tablename (schema_of e model) @ ''_id_seq'') st
         in (AList.update ''id'' (humanize e (PInt v)) datum, st'))
      else (datum, st))"

definition existing_from :: "datum \<Rightarrow> datum" where
  "existing_from datum =
     (if dict_has datum ''id'' \<and> dict_get datum ''id'' = PStr NEXT_ID_IF_NOT_EXISTS
      then AList.delete ''id'' datum
      else datum)"

section \<open>The merge engine and the instance resolver\<close>

record options =
  with_add :: bool
  with_check_not_soft_deleted :: bool
  with_flush :: bool
  with_no_autoflush :: bool

text \<open>The defaults of \<^verbatim>\<open>modify\<close>'s keyword arguments.\<close>

definition default_options :: options where
  "default_options =
     \<lparr>with_add = False, with_check_not_soft_deleted = True,
      with_flush = False, with_no_autoflush = True\<rparr>"

text \<open>
  A call that may recurse returns \<open>None\<close> when its recursion budget is spent, and otherwise
  the state it leaves together with the value it returns or the exception it raises. An
  exception keeps every assignment made before it.
\<close>

definition bnd :: "'a result option \<Rightarrow> ('a \<Rightarrow> state \<Rightarrow> 'b result option) \<Rightarrow> 'b result option" where
  "bnd m f =
     (case m of
        None \<Rightarrow> None
      | Some (Inl x, st) \<Rightarrow> Some (Inl x, st)
      | Some (Inr v, st) \<Rightarrow> f v st)"

primrec for_each ::
    "'a list \<Rightarrow> ('a \<Rightarrow> state \<Rightarrow> unit result option) \<Rightarrow> state \<Rightarrow> unit result option" where
  "for_each [] f st = Some (Inr (), st)"
| "for_each (x # xs) f st = bnd (f x st) (\<lambda>u. for_each xs f)"

primrec map_each ::
    "'a list \<Rightarrow> ('a \<Rightarrow> state \<Rightarrow> pyval result option) \<Rightarrow> state \<Rightarrow> (pyval list) result option" where
  "map_each [] f st = Some (Inr [], st)"
| "map_each (x # xs) f st =
     bnd (f x st) (\<lambda>v st1. bnd (map_each xs f st1) (\<lambda>vs st2. Some (Inr (v # vs), st2)))"

definition class_of :: "state \<Rightarrow> nat \<Rightarrow> string" where
  "class_of st r = (case map_of (heap st) r of Some ob \<Rightarrow> cls ob | None \<Rightarrow> [])"

definition isinstance :: "state \<Rightarrow> pyval \<Rightarrow> string \<Rightarrow> bool" where
  "isinstance st v model =
     (case v of
        PInst r \<Rightarrow> (case map_of (heap st) r of Some ob \<Rightarrow> cls ob = model | None \<Rightarrow> False)
      | _ \<Rightarrow> False)"

text \<open>\<^verbatim>\<open>hasattr(model, name)\<close> on the class.\<close>

definition hasattr_class :: "schema \<Rightarrow> string \<Rightarrow> bool" where
  "hasattr_class sch nm =
     (nm \<in> set (map col_attr (columns sch)) \<or> nm \<in> set (map fst (relationships sch))
      \<or> nm \<in> set (map fst (synonyms sch)) \<or> nm \<in> set (map fst (members sch)))"

text \<open>
  \<^verbatim>\<open>getattr(parent, name)\<close>: a stored attribute; \<^verbatim>\<open>None\<close> for a column or relationship
  not yet set; the member's value for another member of the class; otherwise
  \<^verbatim>\<open>AttributeError\<close>, as for a parent that is \<^verbatim>\<open>None\<close>.
\<close>

definition getattr :: "env \<Rightarrow> state \<Rightarrow> nat option \<Rightarrow> string \<Rightarrow> exn + pyval" where
  "getattr e st parent nm =
     (case parent of
        None \<Rightarrow> Inl (AttributeError nm)
      | Some r \<Rightarrow>
         (case map_of (heap st) r of
            None \<Rightarrow> Inl (AttributeError nm)
          | Some ob \<Rightarrow>
             (let sch = schema_of e (cls ob); target = attr_target sch nm
              in case map_of (attrs ob) target of
                   Some v \<Rightarrow> Inr v
                 | None \<Rightarrow>
                     if target \<in> set (map col_attr (columns sch))
                        \<or> target \<in> set (map fst (relationships sch)) then Inr PNone
                     else if target \<in> set (map fst (members sch))
                       then Inr (getattr_member e ob target)
                     else Inl (AttributeError nm))))"

text \<open>\<^verbatim>\<open>Modify.add(self)\<close> gives the instance to the session.\<close>

definition add :: "nat \<Rightarrow> state \<Rightarrow> state" where
  "add self st = st\<lparr>session := session st @ [self]\<rparr>"

definition soft_deleted_error :: "env \<Rightarrow> state \<Rightarrow> nat \<Rightarrow> exn option" where
  "soft_deleted_error e st self =
     (case map_of (heap st) self of Some ob \<Rightarrow> check_not_soft_deleted e ob | None \<Rightarrow> None)"

text \<open>
  The last loop of \<^verbatim>\<open>modify\<close>, over the keys that are no column, relationship or synonym.
  The result says whether the loop ran into the \<^verbatim>\<open>return\<close> of line 85.
\<close>

fun modify_other_keys :: "env \<Rightarrow> nat \<Rightarrow> datum \<Rightarrow> string list \<Rightarrow> state \<Rightarrow> bool \<times> state" where
  "modify_other_keys e self datum [] st = (False, st)"
| "modify_other_keys e self datum (key # keys) st =
     (if map_of (members (schema_of e (class_of st self))) key = Some ReadOnlyProperty
      then (True, st)
      else modify_other_keys e self datum keys (setattr e self key (dict_get datum key) st))"

text \<open>The loop of \<^verbatim>\<open>_instance_from_search_by_value\<close> that replaces the parent markers.\<close>

fun search_by_value_dict ::
    "env \<Rightarrow> state \<Rightarrow> nat option \<Rightarrow> datum \<Rightarrow> datum \<Rightarrow> exn + datum" where
  "search_by_value_dict e st parent value_dict [] = Inr value_dict"
| "search_by_value_dict e st parent value_dict ((column_name, sub_value) # items) =
     (case (case sub_value of
              PDict d \<Rightarrow>
                if dict_has d ''type'' \<and> dict_get d ''type'' = PStr PARENT then
                  (if \<not> dict_has d ''key'' then Inl (KeyError ''key'')
                   else case dict_get d ''key'' of
                          PStr nm \<Rightarrow>
                            (case getattr e st parent nm of
                               Inl x \<Rightarrow> Inl x
                             | Inr column_value \<Rightarrow>
                                 if dict_has d ''humanized'' \<and> truthy (dict_get d ''humanized'')
                                 then Inr (humanize e column_value)
                                 else Inr column_value)
                        | v \<Rightarrow> Inl TypeError)
                else Inr sub_value
            | v \<Rightarrow> Inr sub_value) of
        Inl x \<Rightarrow> Inl x
      | Inr column_value \<Rightarrow>
          search_by_value_dict e st parent (AList.update column_name column_value value_dict) items)"

text \<open>\<^verbatim>\<open>key in sub_value\<close> and \<^verbatim>\<open>sub_value[key]\<close> for a string key.\<close>

fun is_substring :: "string \<Rightarrow> string \<Rightarrow> bool" where
  "is_substring k [] = (k = [])"
| "is_substring k (c # s) = (take (length k) (c # s) = k \<or> is_substring k s)"

definition py_in :: "string \<Rightarrow> pyval \<Rightarrow> exn + bool" where
  "py_in k v =
     (case v of
        PDict d \<Rightarrow> Inr (dict_has d k)
      | PList xs \<Rightarrow> Inr (PStr k \<in> set xs)
      | PStr s \<Rightarrow> Inr (is_substring k s)
      | _ \<Rightarrow> Inl TypeError)"

definition py_getitem :: "pyval \<Rightarrow> string \<Rightarrow> exn + pyval" where
  "py_getitem v k =
     (case v of
        PDict d \<Rightarrow> (if dict_has d k then Inr (dict_get d k) else Inl (KeyError k))
      | _ \<Rightarrow> Inl TypeError)"

fun relationship_unique_loop ::
    "schema \<Rightarrow> pyval \<Rightarrow> column list \<Rightarrow> datum \<Rightarrow> exn + datum" where
  "relationship_unique_loop sch sub_value [] search_filter = Inr search_filter"
| "relationship_unique_loop sch sub_value (c # cs) search_filter =
     (case py_in (col_key c) sub_value of
        Inl x \<Rightarrow> Inl x
      | Inr False \<Rightarrow> relationship_unique_loop sch sub_value cs search_filter
      | Inr True \<Rightarrow>
          if hasattr_class sch (col_key c) then
            (case py_getitem sub_value (col_key c) of
               Inl x \<Rightarrow> Inl x
             | Inr v \<Rightarrow>
                 relationship_unique_loop sch sub_value cs (AList.update (col_key c) v search_filter))
          else relationship_unique_loop sch sub_value cs search_filter)"

fun relationships_loop ::
    "env \<Rightarrow> schema \<Rightarrow> datum \<Rightarrow> (string \<times> string) list \<Rightarrow> datum \<Rightarrow> exn + datum" where
  "relationships_loop e sch v [] search_filter = Inr search_filter"
| "relationships_loop e sch v ((key, target) # rels) search_filter =
     (if dict_has v key then
        (case relationship_unique_loop sch (dict_get v key)
                (filter col_unique (columns (schema_of e target))) search_filter of
           Inl x \<Rightarrow> Inl x
         | Inr search_filter' \<Rightarrow> relationships_loop e sch v rels search_filter')
      else relationships_loop e sch v rels search_filter)"

definition value_with_search_by_from_relationships ::
    "env \<Rightarrow> state \<Rightarrow> string \<Rightarrow> datum \<Rightarrow> nat option \<Rightarrow> exn + datum option" where
  "value_with_search_by_from_relationships e st model v parent =
     (let search_filter =
            (case parent of
               None \<Rightarrow> []
             | Some p \<Rightarrow>
                 (case unique_filter_from e (class_of st p) v of
                    Some parent_unique_filter \<Rightarrow> dict_merge [] parent_unique_filter
                  | None \<Rightarrow> []))
      in case relationships_loop e (schema_of e model) v
                (relationships (schema_of e model)) search_filter of
           Inl x \<Rightarrow> Inl x
         | Inr search_filter \<Rightarrow>
             if search_filter \<noteq> [] then
               Inr (Some (AList.update SEARCH_BY (PList (map (\<lambda>k. PStr k) (map fst search_filter)))
                            (dict_merge v search_filter)))
             else Inr None)"

text \<open>
  The methods that call one another: \<^verbatim>\<open>modify\<close>, \<^verbatim>\<open>instance_from\<close> with its four
  strategies, \<^verbatim>\<open>create_or_modify\<close> and the constructor \<^verbatim>\<open>__init__\<close> (here \<open>init\<close>, which
  allocates the instance that \<^verbatim>\<open>model(**datum)\<close> makes). A \<open>call\<close> names one of them with
  its arguments; each body below is the method's text, with \<open>rc\<close> standing for the calls it
  makes to the others.
\<close>

datatype call =
    Modify nat datum "string list" options
  | InstanceFromPrimaries string datum bool
  | InstanceFromUnicity string datum bool
  | InstanceFromSearchByValue string datum "nat option" bool
  | InstanceFromRelationships string datum "nat option" bool
  | InstanceFrom string pyval "nat option" bool
  | CreateOrModify string datum bool bool bool
  | Init string datum

type_synonym callee = "call \<Rightarrow> state \<Rightarrow> pyval result option"

text \<open>
  The key sets of \<^verbatim>\<open>modify\<close>: the datum's keys without the skipped ones, their
  intersections with the keys of the columns, of the relationships and of the synonyms, and
  the keys that are left.
\<close>

definition datum_keys_with_skipped_keys :: "datum \<Rightarrow> string list \<Rightarrow> string list" where
  "datum_keys_with_skipped_keys datum skipped_keys =
     filter (\<lambda>k. k \<notin> set skipped_keys) (dict_keys datum)"

definition other_keys :: "env \<Rightarrow> schema \<Rightarrow> string list \<Rightarrow> string list" where
  "other_keys e sch datum_keys =
     set_iter (rank e)
       (filter (\<lambda>k. k \<notin> set (intersection e (map col_attr (columns sch)) datum_keys)
                   \<and> k \<notin> set (intersection e (map fst (relationships sch)) datum_keys)
                   \<and> k \<notin> set (intersection e (map fst (synonyms sch)) datum_keys))
               datum_keys)"

text \<open>The bodies of the first three loops of \<^verbatim>\<open>modify\<close>.\<close>

definition column_step ::
    "env \<Rightarrow> nat \<Rightarrow> schema \<Rightarrow> datum \<Rightarrow> string \<Rightarrow> state \<Rightarrow> unit result option" where
  "column_step e self sch datum key s =
     (case columns_get sch key of
        Some column \<Rightarrow> Some (try_to_set_attribute e self column key (dict_get datum key) s)
      | None \<Rightarrow> Some (Inr (), s))"

definition relationship_step ::
    "callee \<Rightarrow> env \<Rightarrow> nat \<Rightarrow> schema \<Rightarrow> datum \<Rightarrow> bool \<Rightarrow> string \<Rightarrow> state
       \<Rightarrow> unit result option" where
  "relationship_step rc e self sch datum no_autoflush key s =
     (case map_of (relationships sch) key of
        Some model \<Rightarrow>
          bnd (rc (InstanceFrom model (dict_get datum key) (Some self) no_autoflush) s)
              (\<lambda>v s'. Some (Inr (), if truthy v then setattr e self key v s' else s'))
      | None \<Rightarrow> Some (Inr (), s))"

definition synonym_step ::
    "env \<Rightarrow> nat \<Rightarrow> schema \<Rightarrow> datum \<Rightarrow> string \<Rightarrow> state \<Rightarrow> unit result option" where
  "synonym_step e self sch datum key s =
     (case map_of (synonyms sch) key of
        Some column \<Rightarrow> Some (try_to_set_attribute e self column key (dict_get datum key) s)
      | None \<Rightarrow> Some (Inr (), s))"

definition modify_body ::
    "callee \<Rightarrow> env \<Rightarrow> nat \<Rightarrow> datum \<Rightarrow> string list \<Rightarrow> options \<Rightarrow> state \<Rightarrow> pyval result option" where
  "modify_body rc e self datum skipped_keys opts st0 =
     (let st = (if with_add opts then add self st0 else st0) in
      case (if with_check_not_soft_deleted opts then soft_deleted_error e st self else None) of
        Some x \<Rightarrow> Some (Inl x, st)
      | None \<Rightarrow>
         (let sch = schema_of e (class_of st self);
              datum_keys = datum_keys_with_skipped_keys datum skipped_keys;
              column_keys_to_modify = intersection e (map col_attr (columns sch)) datum_keys;
              relationship_keys_to_modify =
                intersection e (map fst (relationships sch)) datum_keys;
              synonym_keys_to_modify = intersection e (map fst (synonyms sch)) datum_keys;
              other_keys_to_modify = other_keys e sch datum_keys
          in
          bnd (for_each column_keys_to_modify (column_step e self sch datum) st)
          (\<lambda>u s1.
             bnd (for_each relationship_keys_to_modify
                    (relationship_step rc e self sch datum (with_no_autoflush opts)) s1)
             (\<lambda>u s2.
                bnd (for_each synonym_keys_to_modify (synonym_step e self sch datum) s2)
                (\<lambda>u s3.
                   let (returned, s4) = modify_other_keys e self datum other_keys_to_modify s3
                   in if returned then Some (Inr PNone, s4)
                      else Some (Inr (PInst self),
                                 if with_flush opts then session_flush e s4 else s4))))))"

definition instance_from_primaries_body ::
    "callee \<Rightarrow> env \<Rightarrow> string \<Rightarrow> datum \<Rightarrow> bool \<Rightarrow> state \<Rightarrow> pyval result option" where
  "instance_from_primaries_body rc e model v no_autoflush st =
     (let primary_filter = primary_filter_from e model v;
          primary_values = map snd primary_filter
      in if list_all truthy primary_values then
           (let (instance, st') = query_get_values e no_autoflush model primary_values st
            in case instance of
                 Some r \<Rightarrow> rc (Modify r v [] default_options) st'
               | None \<Rightarrow> Some (Inr PNone, st'))
         else Some (Inr PNone, st))"

definition instance_from_unicity_body ::
    "callee \<Rightarrow> env \<Rightarrow> string \<Rightarrow> datum \<Rightarrow> bool \<Rightarrow> state \<Rightarrow> pyval result option" where
  "instance_from_unicity_body rc e model v no_autoflush st =
     (case unique_filter_from e model v of
        Some unique_filter \<Rightarrow>
          (let (instance, st') = query_filter_by_first e no_autoflush model unique_filter st
           in case instance of
                Some r \<Rightarrow> rc (Modify r v [] default_options) st'
              | None \<Rightarrow> Some (Inr PNone, st'))
      | None \<Rightarrow> Some (Inr PNone, st))"

definition instance_from_search_by_value_body ::
    "callee \<Rightarrow> env \<Rightarrow> string \<Rightarrow> datum \<Rightarrow> nat option \<Rightarrow> bool \<Rightarrow> state \<Rightarrow> pyval result option" where
  "instance_from_search_by_value_body rc e model v parent no_autoflush st =
     (case search_by_value_dict e st parent [] v of
        Inl x \<Rightarrow> Some (Inl x, st)
      | Inr value_dict \<Rightarrow> rc (CreateOrModify model value_dict False False no_autoflush) st)"

definition instance_from_relationships_body ::
    "callee \<Rightarrow> env \<Rightarrow> string \<Rightarrow> datum \<Rightarrow> nat option \<Rightarrow> bool \<Rightarrow> state \<Rightarrow> pyval result option" where
  "instance_from_relationships_body rc e model v parent no_autoflush st =
     (case value_with_search_by_from_relationships e st model v parent of
        Inl x \<Rightarrow> Some (Inl x, st)
      | Inr (Some v') \<Rightarrow> rc (InstanceFromSearchByValue model v' parent no_autoflush) st
      | Inr None \<Rightarrow> Some (Inr PNone, st))"

definition instance_from_body ::
    "callee \<Rightarrow> env \<Rightarrow> string \<Rightarrow> pyval \<Rightarrow> nat option \<Rightarrow> bool \<Rightarrow> state \<Rightarrow> pyval result option" where
  "instance_from_body rc e model v parent no_autoflush st =
     (if \<not> isinstance st v model then
        (case v of
           PDict d \<Rightarrow>
             if dict_has d SEARCH_BY
             then rc (InstanceFromSearchByValue model d parent no_autoflush) st
             else
               bnd (rc (InstanceFromRelationships model d parent no_autoflush) st)
               (\<lambda>instance s.
                  let instance = PNone in
                  bnd (if \<not> truthy instance
                       then rc (InstanceFromPrimaries model d no_autoflush) s
                       else Some (Inr instance, s))
                  (\<lambda>instance s.
                     bnd (if \<not> truthy instance
                          then rc (InstanceFromUnicity model d no_autoflush) s
                          else Some (Inr instance, s))
                     (\<lambda>instance s.
                        if truthy instance then Some (Inr instance, s)
                        else rc (Init model d) s)))
         | PList xs \<Rightarrow>
             bnd (map_each xs (\<lambda>ob. rc (InstanceFrom model ob parent no_autoflush)) st)
                 (\<lambda>vs s. Some (Inr (PList vs), s))
         | PStr cs \<Rightarrow>
             bnd (map_each (map (\<lambda>c. PStr [c]) cs)
                    (\<lambda>ob. rc (InstanceFrom model ob parent no_autoflush)) st)
                 (\<lambda>vs s. Some (Inr (PList vs), s))
         | _ \<Rightarrow> Some (Inr v, st))
      else Some (Inr v, st))"

definition create_or_modify_body ::
    "callee \<Rightarrow> env \<Rightarrow> string \<Rightarrow> datum \<Rightarrow> bool \<Rightarrow> bool \<Rightarrow> bool \<Rightarrow> state \<Rightarrow> pyval result option" where
  "create_or_modify_body rc e model datum w_add w_flush no_autoflush st =
     (let nesting_datum = nesting_datum_from e datum
      in case find_py e model nesting_datum no_autoflush st of
           (Inl x, st') \<Rightarrow> Some (Inl x, st')
         | (Inr (PInst entity), st') \<Rightarrow>
             rc (Modify entity (existing_from nesting_datum) []
                   \<lparr>with_add = w_add, with_check_not_soft_deleted = True,
                    with_flush = w_flush, with_no_autoflush = no_autoflush\<rparr>) st'
         | (Inr nothing, st') \<Rightarrow>
             (let (created, st'') = created_from e model nesting_datum st'
              in bnd (rc (Init model created) st'')
                 (\<lambda>entity s.
                    let s1 = (case entity of PInst r \<Rightarrow> if w_add then add r s else s | _ \<Rightarrow> s)
                    in Some (Inr entity, if w_flush then session_flush e s1 else s1))))"

definition init_body ::
    "callee \<Rightarrow> env \<Rightarrow> string \<Rightarrow> datum \<Rightarrow> state \<Rightarrow> pyval result option" where
  "init_body rc e model datum st =
     (let self = next_ref st;
          st' = st\<lparr>heap := AList.update self \<lparr>cls = model, attrs = []\<rparr> (heap st),
                   next_ref := Suc self\<rparr>
      in bnd (rc (Modify self datum [] default_options) st')
             (\<lambda>u s. Some (Inr (PInst self), s)))"

text \<open>
  Running a call with a recursion budget: every call spends one unit, and a call that finds
  the budget spent does not return (\<open>None\<close>), as a Python recursion that never ends.
\<close>

primrec run :: "nat \<Rightarrow> env \<Rightarrow> call \<Rightarrow> state \<Rightarrow> pyval result option" where
  "run 0 e c st = None"
| "run (Suc n) e c st =
     (case c of
        Modify self datum skipped_keys opts \<Rightarrow>
          modify_body (run n e) e self datum skipped_keys opts st
      | InstanceFromPrimaries model v no_autoflush \<Rightarrow>
          instance_from_primaries_body (run n e) e model v no_autoflush st
      | InstanceFromUnicity model v no_autoflush \<Rightarrow>
          instance_from_unicity_body (run n e) e model v no_autoflush st
      | InstanceFromSearchByValue model v parent no_autoflush \<Rightarrow>
          instance_from_search_by_value_body (run n e) e model v parent no_autoflush st
      | InstanceFromRelationships model v parent no_autoflush \<Rightarrow>
          instance_from_relationships_body (run n e) e model v parent no_autoflush st
      | InstanceFrom model v parent no_autoflush \<Rightarrow>
          instance_from_body (run n e) e model v parent no_autoflush st
      | CreateOrModify model datum w_add w_flush no_autoflush \<Rightarrow>
          create_or_modify_body (run n e) e model datum w_add w_flush no_autoflush st
      | Init model datum \<Rightarrow>
          init_body (run n e) e model datum st)"

definition modify ::
    "nat \<Rightarrow> env \<Rightarrow> nat \<Rightarrow> datum \<Rightarrow> string list \<Rightarrow> options \<Rightarrow> state \<Rightarrow> pyval result option" where
  "modify n e self datum skipped_keys opts st = run n e (Modify self datum skipped_keys opts) st"









section \<open>An example application\<close>

text \<open>
  The models of the test suite, for the concrete instances of the theorems: a user with a
  unique email, a synonym \<^verbatim>\<open>job\<close> for the column \<^verbatim>\<open>metier\<close>, a read-only property and a
  relationship to another user; an offerer with a unique siren; and the join record of both,
  which has no unique column. The collaborators are the simplest ones: identifiers are not
  encoded, a lookup returns the first stored instance of the class whose attributes equal the
  filter, and a flush changes nothing.
\<close>

definition mk_column :: "string \<Rightarrow> coltype \<Rightarrow> bool \<Rightarrow> column" where
  "mk_column nm t u = \<lparr>col_attr = nm, col_key = nm, col_name = nm, col_type = t, col_unique = u\<rparr>"

definition user_schema :: schema where
  "user_schema =
     \<lparr>tablename = ''user'',
      columns = [mk_column ''id'' BigInteger False, mk_column ''email'' String True,
                 mk_column ''publicName'' String False, mk_column ''metier'' String False,
                 mk_column ''age'' Integer False, mk_column ''isActive'' Boolean False,
                 mk_column ''dateCreated'' DateTime False],
      primary_key = [mk_column ''id'' BigInteger False],
      relationships = [(''sponsor'', ''User'')],
      synonyms = [(''job'', mk_column ''metier'' String False)],
      members = [(''fullName'', ReadOnlyProperty)]\<rparr>"

definition offerer_schema :: schema where
  "offerer_schema =
     \<lparr>tablename = ''offerer'',
      columns = [mk_column ''id'' BigInteger False, mk_column ''name'' String False,
                 mk_column ''siren'' String True],
      primary_key = [mk_column ''id'' BigInteger False],
      relationships = [],
      synonyms = [],
      members = []\<rparr>"

definition user_offerer_schema :: schema where
  "user_offerer_schema =
     \<lparr>tablename = ''user_offerer'',
      columns = [mk_column ''id'' BigInteger False, mk_column ''userId'' BigInteger False,
                 mk_column ''offererId'' BigInteger False],
      primary_key = [mk_column ''id'' BigInteger False],
      relationships = [(''user'', ''User''), (''offerer'', ''Offerer'')],
      synonyms = [],
      members = []\<rparr>"

definition empty_schema :: schema where
  "empty_schema =
     \<lparr>tablename = [], columns = [], primary_key = [], relationships = [],
      synonyms = [], members = []\<rparr>"

definition matches :: "string \<Rightarrow> datum \<Rightarrow> obj \<Rightarrow> bool" where
  "matches model flt ob =
     (cls ob = model \<and> list_all (\<lambda>(k, v). dict_get (attrs ob) k = v) flt)"

definition app :: env where
  "app =
     \<lparr>schema_of = (\<lambda>m. if m = ''User'' then user_schema
                         else if m = ''Offerer'' then offerer_schema
                         else if m = ''UserOfferer'' then user_offerer_schema
                         else empty_schema),
      dehumanize_if_needed = (\<lambda>c v. v),
      humanize = (\<lambda>v. v),
      nesting_datum_from = (\<lambda>d. d),
      deserialize_datetime =
        (\<lambda>k v. case v of
                  PNone \<Rightarrow> Some PNone
                | PStr s \<Rightarrow> if s = ''2020-01-01'' then Some (PDateTime 0) else None
                | _ \<Rightarrow> None),
      uuid_UUID = (\<lambda>s. length s = 36),
      repr = (\<lambda>v. case v of PStr s \<Rightarrow> [CHR 0x27] @ s @ [CHR 0x27] | _ \<Rightarrow> ''?''),
      check_not_soft_deleted =
        (\<lambda>ob. if dict_get (attrs ob) ''isSoftDeleted'' = PBool True
              then Some (ResourceGoneError [(''global'', [''gone''])])
              else None),
      query_first =
        (\<lambda>st model flt. map_option fst (List.find (\<lambda>(r, ob). matches model flt ob) (heap st))),
      query_get =
        (\<lambda>st model vals. map_option fst
           (List.find (\<lambda>(r, ob). cls ob = model \<and> [dict_get (attrs ob) ''id''] = vals) (heap st))),
      session_flush = (\<lambda>st. st),
      getattr_member = (\<lambda>ob nm. PNone),
      rank = (\<lambda>k. 0)\<rparr>"

text \<open>A store with one user, and a store with a user, an offerer and their join record.\<close>

definition one_user :: state where
  "one_user =
     \<lparr>heap = [(0, \<lparr>cls = ''User'', attrs = [(''id'', PInt 1), (''publicName'', PStr ''ann'')]\<rparr>)],
      next_ref = 1, session = [], sequences = [], queries = 0\<rparr>"



section \<open>Notions used in the statements\<close>


text \<open>
  A datum of scalar fields only: each of its keys is a column of the record type, and none is
  also a relationship or a synonym.
\<close>

definition only_columns :: "schema \<Rightarrow> string list \<Rightarrow> bool" where
  "only_columns sch keys =
     list_all (\<lambda>k. k \<in> set (map col_attr (columns sch))
                  \<and> k \<notin> set (map fst (relationships sch))
                  \<and> k \<notin> set (map fst (synonyms sch))) keys"

section \<open>Basic facts\<close>

lemma bnd_simps:
  "bnd None f = None"
  "bnd (Some (Inl x, st)) f = Some (Inl x, st)"
  "bnd (Some (Inr v, st)) f = f v st"
  by (simp_all add: bnd_def)

lemma set_set_iter: "set (set_iter rk xs) = set xs"
  by (simp add: set_iter_def)

lemma distinct_set_iter: "distinct (set_iter rk xs)"
  by (simp add: set_iter_def)

lemma set_intersection: "set (intersection e ks dk) = set ks \<inter> set dk"
  by (auto simp: intersection_def set_set_iter)

lemma distinct_intersection: "distinct (intersection e ks dk)"
  by (simp add: intersection_def distinct_set_iter)

lemma add_error_single: "add_error [] field msg = [(field, [msg])]"
  by (simp add: add_error_def)

section \<open>The attribute coercer\<close>

lemma try_to_set_attribute_coerce:
  "try_to_set_attribute e self c k v st = apply_outcome e self k (coerce e c k v) st"
  by (cases "dehumanize_if_needed e c v")
     (simp_all add: try_to_set_attribute_def coerce_def apply_outcome_def Let_def
        try_to_set_attribute_with_decimal_value_def try_to_set_attribute_with_uuid_def
        try_to_set_attribute_with_deserialized_datetime_def split: option.splits)

text \<open>
  C3, as the code has it. On an integer column the value first goes through
  \<^verbatim>\<open>dehumanize_if_needed\<close> (line 224); when what comes back is a string \<open>s\<close>, it is \<open>s\<close>
  that goes through \<^verbatim>\<open>Decimal\<close>: what \<^verbatim>\<open>Decimal\<close> accepts is assigned as that decimal,
  and what it rejects raises a \<^verbatim>\<open>DecimalCastError\<close> whose message names the field, the
  expected kind \<^verbatim>\<open>integer\<close> and \<open>s\<close>, and leaves the state as it was.
\<close>

theorem coerce_integer_string:
  assumes "isinstance_Integer (col_type column)"
    and "dehumanize_if_needed e column v = PStr s"
  shows "try_to_set_attribute e self column key v st =
           (case Decimal s of
              Some d \<Rightarrow> (Inr (), setattr e self key (PDecimal d) st)
            | None \<Rightarrow>
                (Inl (DecimalCastError
                        [(col_name column,
                          [''Invalid value for '' @ key @ '' (integer): ''
                             @ [CHR 0x27] @ s @ [CHR 0x27]])]), st))"
  using assms
  by (simp add: try_to_set_attribute_def try_to_set_attribute_with_decimal_value_def
        add_error_single split: option.splits)

text \<open>
  The input \<^verbatim>\<open>"12"\<close> assigns the decimal 12; the inputs \<^verbatim>\<open>"12,5"\<close> and
  \<^verbatim>\<open>"1e1000000000000000000"\<close>, which \<^verbatim>\<open>Decimal\<close> rejects (the second for its exponent),
  raise the error for the field \<^verbatim>\<open>age\<close>.
\<close>

theorem coerce_integer_string_witness:
  "try_to_set_attribute app 0 (mk_column ''age'' Integer False) ''age'' (PStr ''12'') one_user =
     (Inr (), setattr app 0 ''age'' (PDecimal (Finite False 12 0)) one_user)
   \<and> try_to_set_attribute app 0 (mk_column ''age'' Integer False) ''age'' (PStr ''12,5'') one_user =
     (Inl (DecimalCastError
        [(''age'', [''Invalid value for age (integer): '' @ [CHR 0x27] @ ''12,5'' @ [CHR 0x27]])]),
      one_user)
   \<and> try_to_set_attribute app 0 (mk_column ''age'' Integer False) ''age''
         (PStr ''1e1000000000000000000'') one_user =
     (Inl (DecimalCastError
        [(''age'', [''Invalid value for age (integer): '' @ [CHR 0x27]
                       @ ''1e1000000000000000000'' @ [CHR 0x27]])]),
      one_user)"
proof -
  have ty: "isinstance_Integer (col_type (mk_column ''age'' Integer False))"
    by (simp add: mk_column_def)
  have de: "dehumanize_if_needed app (mk_column ''age'' Integer False) (PStr s) = PStr s" for s
    by (simp add: app_def)
  have d1: "Decimal ''12'' = Some (Finite False 12 0)" by code_simp
  have d2: "Decimal ''12,5'' = None" by code_simp
  have d3: "Decimal ''1e1000000000000000000'' = None" by code_simp
  have nm: "col_name (mk_column ''age'' Integer False) = ''age''"
    by (simp add: mk_column_def)
  show ?thesis
    using coerce_integer_string [OF ty de, where self = 0 and key = "''age''" and st = one_user
            and s = "''12''"]
          coerce_integer_string [OF ty de, where self = 0 and key = "''age''" and st = one_user
            and s = "''12,5''"]
          coerce_integer_string [OF ty de, where self = 0 and key = "''age''" and st = one_user
            and s = "''1e1000000000000000000''"]
    by (simp add: d1 d2 d3 nm)
qed

text \<open>
  C3 as stated fails: the input \<^verbatim>\<open>"12.5"\<close> on an integer column raises nothing and
  assigns the decimal 12.5.
\<close>

theorem coerce_integer_fraction_counterexample:
  "try_to_set_attribute app 0 (mk_column ''age'' Integer False) ''age'' (PStr ''12.5'') one_user =
     (Inr (),
      one_user\<lparr>heap := [(0, \<lparr>cls = ''User'',
                 attrs = [(''id'', PInt 1), (''publicName'', PStr ''ann''),
                          (''age'', PDecimal (Finite False 125 (- 1)))]\<rparr>)]\<rparr>)"
  by code_simp

text \<open>
  C6, at the input where the code leaves it: the string \<^verbatim>\<open>"true"\<close> on a Boolean column is
  neither assigned nor refused; the call returns and the state is the one before.
\<close>

theorem string_on_boolean_column_dropped:
  "try_to_set_attribute app 0 (mk_column ''isActive'' Boolean False) ''isActive''
     (PStr ''true'') one_user = (Inr (), one_user)"
  by code_simp

text \<open>
  C7, at the input where the code leaves it: a datum key that names a read-only property
  makes \<^verbatim>\<open>modify\<close> return \<^verbatim>\<open>None\<close>, not the instance, and the key after it is never
  assigned.
\<close>

theorem modify_read_only_key_returns_None:
  "modify 1 app 0 [(''fullName'', PStr ''x''), (''nickname'', PStr ''bob'')] []
     default_options one_user = Some (Inr PNone, one_user)"
  by code_simp

section \<open>The filter builder\<close>

lemma map_of_foldl_update:
  "map_of (foldl (\<lambda>fd key. case g key of Some v \<Rightarrow> AList.update key v fd | None \<Rightarrow> fd) fd0 ks) k =
     (if k \<in> set ks then (case g k of Some v \<Rightarrow> Some v | None \<Rightarrow> map_of fd0 k)
      else map_of fd0 k)"
proof (induction ks arbitrary: fd0)
  case Nil
  then show ?case by simp
next
  case (Cons a ks)
  show ?case
    by (cases "g a") (auto simp: Cons.IH update_conv' split: option.splits)
qed

lemma map_of_dict_merge:
  "map_of (dict_merge a b) k = (case map_of (rev b) k of Some v \<Rightarrow> Some v | None \<Rightarrow> map_of a k)"
  unfolding dict_merge_def
proof (induction b arbitrary: a)
  case Nil
  then show ?case by simp
next
  case (Cons p b)
  obtain k' v' where p: "p = (k', v')" by (cases p)
  show ?case
    by (auto simp: p Cons.IH update_conv' map_add_def split: option.splits)
qed

lemma columns_get_None: "columns_get sch k = None \<longleftrightarrow> k \<notin> set (map col_attr (columns sch))"
  by (auto simp: columns_get_def find_None_iff)

lemma map_of_None_keys: "map_of xs k = None \<longleftrightarrow> k \<notin> set (map fst xs)"
  by (simp add: map_of_eq_None_iff)

lemma in_keys_map_of: "k \<in> fst ` set xs \<longleftrightarrow> (\<exists>v. map_of xs k = Some v)"
  using map_of_eq_None_iff [of xs k] by auto

lemma in_keys_columns_get:
  "k \<in> col_attr ` set (columns sch) \<longleftrightarrow> (\<exists>c. columns_get sch k = Some c)"
  using columns_get_None [of sch k] by auto

lemma unique_filter_loop_find:
  "unique_filter_loop e (filter col_unique cs) v =
     map_option (\<lambda>c. [(col_key c, dehumanize_if_needed e c (dict_get v (col_key c)))])
       (List.find (\<lambda>c. col_unique c \<and> dict_has v (col_key c) \<and> truthy (dict_get v (col_key c))) cs)"
  by (induction cs) (auto simp: Let_def)

lemma map_of_primary_filter_from:
  "map_of (primary_filter_from e model v) k =
     map_option (\<lambda>c. dehumanize_if_needed e c (dict_get v k))
       (List.find (\<lambda>c. col_key c = k) (rev (primary_key (schema_of e model))))"
proof -
  have "map_of (rev (map (\<lambda>c. (col_key c, dehumanize_if_needed e c (dict_get v (col_key c)))) cs)) k =
        map_option (\<lambda>c. dehumanize_if_needed e c (dict_get v k)) (List.find (\<lambda>c. col_key c = k) (rev cs))"
    for cs
    by (induction cs rule: rev_induct) auto
  then show ?thesis
    by (simp add: primary_filter_from_def map_of_dict_merge split: option.splits)
qed

lemma filter_from_search_by:
  assumes "dict_has datum SEARCH_BY" and "truthy (dict_get datum SEARCH_BY)"
    and "py_set (case dict_get datum SEARCH_BY of PList xs \<Rightarrow> xs | v \<Rightarrow> [v]) = Inr keys"
  shows "\<exists>flt. filter_from e model datum = Inr flt \<and>
           (\<forall>k. map_of flt k =
              (if k \<in> set keys then
                 (case map_of (synonyms (schema_of e model)) k of
                    Some c \<Rightarrow> Some (dehumanize_if_needed e c (dict_get datum k))
                  | None \<Rightarrow>
                     (case map_of (relationships (schema_of e model)) k of
                        Some t \<Rightarrow> Some (dict_get datum k)
                      | None \<Rightarrow>
                         (case columns_get (schema_of e model) k of
                            Some c \<Rightarrow> Some (dehumanize_if_needed e c (dict_get datum k))
                          | None \<Rightarrow> None)))
               else None))"
proof -
  let ?sch = "schema_of e model"
  let ?g1 = "\<lambda>key. map_option (\<lambda>c. dehumanize_if_needed e c (dict_get datum key)) (columns_get ?sch key)"
  let ?g2 = "\<lambda>key. if key \<in> set keys then Some (dict_get datum key) else None"
  let ?g3 = "\<lambda>key. case map_of (synonyms ?sch) key of
                      Some c \<Rightarrow> if key \<in> set keys
                                then Some (dehumanize_if_needed e c (dict_get datum key)) else None
                    | None \<Rightarrow> None"
  let ?ck = "intersection e (map col_attr (columns ?sch)) keys"
  let ?rk = "intersection e (map fst (relationships ?sch)) keys"
  let ?sk = "intersection e (map fst (synonyms ?sch)) keys"
  let ?up = "\<lambda>g fd key. case g key of Some v \<Rightarrow> AList.update key v fd | None \<Rightarrow> fd"
  let ?flt = "foldl (?up ?g3) (foldl (?up ?g2) (foldl (?up ?g1) [] ?ck) ?rk) ?sk"
  have e1: "(\<lambda>fd key. case columns_get ?sch key of
                Some column \<Rightarrow> AList.update key (dehumanize_if_needed e column (dict_get datum key)) fd
              | None \<Rightarrow> fd) = ?up ?g1"
    by (intro ext) (simp split: option.splits)
  have e2: "(\<lambda>fd key. if key \<in> set keys then AList.update key (dict_get datum key) fd else fd)
              = ?up ?g2"
    by (intro ext) simp
  have e3: "(\<lambda>fd key. case map_of (synonyms ?sch) key of
                Some column \<Rightarrow> if key \<in> set keys
                  then AList.update key (dehumanize_if_needed e column (dict_get datum key)) fd
                  else fd
              | None \<Rightarrow> fd) = ?up ?g3"
    by (intro ext) (simp split: option.splits)
  have ff: "filter_from e model datum = Inr ?flt"
    using assms by (simp add: filter_from_def Let_def e1 e2 e3)
  define f1 where "f1 = foldl (?up ?g1) [] ?ck"
  define f2 where "f2 = foldl (?up ?g2) f1 ?rk"
  define f3 where "f3 = foldl (?up ?g3) f2 ?sk"
  have m1: "map_of f1 k = (if k \<in> set ?ck then ?g1 k else None)" for k
    unfolding f1_def by (subst map_of_foldl_update) (simp split: option.splits)
  have m2: "map_of f2 k = (if k \<in> set ?rk then (case ?g2 k of Some v \<Rightarrow> Some v | None \<Rightarrow> map_of f1 k)
                           else map_of f1 k)" for k
    unfolding f2_def by (rule map_of_foldl_update)
  have m3: "map_of f3 k = (if k \<in> set ?sk then (case ?g3 k of Some v \<Rightarrow> Some v | None \<Rightarrow> map_of f2 k)
                           else map_of f2 k)" for k
    unfolding f3_def by (rule map_of_foldl_update)
  have m: "map_of f3 k =
          (if k \<in> set keys then
             (case map_of (synonyms ?sch) k of
                Some c \<Rightarrow> Some (dehumanize_if_needed e c (dict_get datum k))
              | None \<Rightarrow>
                 (case map_of (relationships ?sch) k of
                    Some t \<Rightarrow> Some (dict_get datum k)
                  | None \<Rightarrow>
                     (case columns_get ?sch k of
                        Some c \<Rightarrow> Some (dehumanize_if_needed e c (dict_get datum k))
                      | None \<Rightarrow> None)))
           else None)" for k
    unfolding m3 m2 m1
    by (auto simp: set_intersection in_keys_map_of in_keys_columns_get split: option.splits)
  have "?flt = f3" by (simp only: f1_def f2_def f3_def)
  with ff have "filter_from e model datum = Inr f3" by simp
  with m show ?thesis by blast
qed


text \<open>
  C2. The filter of a datum follows the strategy order. With a truthy \<^verbatim>\<open>__SEARCH_BY__\<close>
  naming \<open>keys\<close>, the filter has an entry for exactly the named keys that are a synonym, a
  relationship or a column of the model, each built from the datum's value for that key and
  from nothing else. Otherwise, when some unique column has a truthy value in the datum, the
  filter is the single entry of the first such column in declaration order. Otherwise it is
  the primary-key filter, with an entry for every primary-key column.
\<close>

theorem filter_from_strategy:
  "(dict_has datum SEARCH_BY \<and> truthy (dict_get datum SEARCH_BY)
      \<and> py_set (case dict_get datum SEARCH_BY of PList xs \<Rightarrow> xs | v \<Rightarrow> [v]) = Inr keys \<longrightarrow>
      (\<exists>flt. filter_from e model datum = Inr flt \<and>
         (\<forall>k. map_of flt k =
            (if k \<in> set keys then
               (case map_of (synonyms (schema_of e model)) k of
                  Some c \<Rightarrow> Some (dehumanize_if_needed e c (dict_get datum k))
                | None \<Rightarrow>
                   (case map_of (relationships (schema_of e model)) k of
                      Some t \<Rightarrow> Some (dict_get datum k)
                    | None \<Rightarrow>
                       (case columns_get (schema_of e model) k of
                          Some c \<Rightarrow> Some (dehumanize_if_needed e c (dict_get datum k))
                        | None \<Rightarrow> None)))
             else None))))
   \<and> (\<not> (dict_has datum SEARCH_BY \<and> truthy (dict_get datum SEARCH_BY)) \<longrightarrow>
        (case List.find (\<lambda>c. col_unique c \<and> dict_has datum (col_key c)
                               \<and> truthy (dict_get datum (col_key c)))
                (columns (schema_of e model)) of
           Some c \<Rightarrow>
             filter_from e model datum =
               Inr [(col_key c, dehumanize_if_needed e c (dict_get datum (col_key c)))]
         | None \<Rightarrow>
             filter_from e model datum = Inr (primary_filter_from e model datum)
             \<and> (\<forall>k. map_of (primary_filter_from e model datum) k =
                    map_option (\<lambda>c. dehumanize_if_needed e c (dict_get datum k))
                      (List.find (\<lambda>c. col_key c = k) (rev (primary_key (schema_of e model)))))))"
proof (intro conjI impI)
  assume "dict_has datum SEARCH_BY \<and> truthy (dict_get datum SEARCH_BY)
      \<and> py_set (case dict_get datum SEARCH_BY of PList xs \<Rightarrow> xs | v \<Rightarrow> [v]) = Inr keys"
  then show "\<exists>flt. filter_from e model datum = Inr flt \<and>
         (\<forall>k. map_of flt k =
            (if k \<in> set keys then
               (case map_of (synonyms (schema_of e model)) k of
                  Some c \<Rightarrow> Some (dehumanize_if_needed e c (dict_get datum k))
                | None \<Rightarrow>
                   (case map_of (relationships (schema_of e model)) k of
                      Some t \<Rightarrow> Some (dict_get datum k)
                    | None \<Rightarrow>
                       (case columns_get (schema_of e model) k of
                          Some c \<Rightarrow> Some (dehumanize_if_needed e c (dict_get datum k))
                        | None \<Rightarrow> None)))
             else None))"
    using filter_from_search_by by blast
next
  assume no: "\<not> (dict_has datum SEARCH_BY \<and> truthy (dict_get datum SEARCH_BY))"
  show "case List.find (\<lambda>c. col_unique c \<and> dict_has datum (col_key c)
                               \<and> truthy (dict_get datum (col_key c)))
                (columns (schema_of e model)) of
           Some c \<Rightarrow>
             filter_from e model datum =
               Inr [(col_key c, dehumanize_if_needed e c (dict_get datum (col_key c)))]
         | None \<Rightarrow>
             filter_from e model datum = Inr (primary_filter_from e model datum)
             \<and> (\<forall>k. map_of (primary_filter_from e model datum) k =
                    map_option (\<lambda>c. dehumanize_if_needed e c (dict_get datum k))
                      (List.find (\<lambda>c. col_key c = k) (rev (primary_key (schema_of e model)))))"
    using no
    by (auto simp: filter_from_def unique_filter_from_def unique_filter_loop_find
          map_of_primary_filter_from split: option.splits)
qed

text \<open>
  On the user model: \<^verbatim>\<open>__SEARCH_BY__\<close> wins over the primary key and the unique email that
  the datum also gives; without it the unique email wins over the primary key; without
  either the primary key is used.
\<close>

theorem filter_from_strategy_witness:
  "(\<exists>flt. filter_from app ''User''
            [(''id'', PInt 1), (''email'', PStr ''a''), (''publicName'', PStr ''ann''),
             (SEARCH_BY, PList [PStr ''publicName''])] = Inr flt
          \<and> map_of flt ''publicName'' = Some (PStr ''ann'')
          \<and> map_of flt ''id'' = None \<and> map_of flt ''email'' = None)
   \<and> filter_from app ''User'' [(''id'', PInt 1), (''email'', PStr ''a'')] = Inr [(''email'', PStr ''a'')]
   \<and> filter_from app ''User'' [(''id'', PInt 1), (''email'', PStr [])] = Inr [(''id'', PInt 1)]"
proof -
  let ?d1 = "[(''id'', PInt 1), (''email'', PStr ''a''), (''publicName'', PStr ''ann''),
              (SEARCH_BY, PList [PStr ''publicName''])]"
  let ?d2 = "[(''id'', PInt 1), (''email'', PStr ''a'')]"
  let ?d3 = "[(''id'', PInt 1), (''email'', PStr [])]"
  have h1: "dict_has ?d1 SEARCH_BY \<and> truthy (dict_get ?d1 SEARCH_BY)
      \<and> py_set (case dict_get ?d1 SEARCH_BY of PList xs \<Rightarrow> xs | v \<Rightarrow> [v]) = Inr [''publicName'']"
    by code_simp
  have h2: "\<not> (dict_has ?d2 SEARCH_BY \<and> truthy (dict_get ?d2 SEARCH_BY))" by code_simp
  have h3: "\<not> (dict_has ?d3 SEARCH_BY \<and> truthy (dict_get ?d3 SEARCH_BY))" by code_simp
  have f2: "List.find (\<lambda>c. col_unique c \<and> dict_has ?d2 (col_key c) \<and> truthy (dict_get ?d2 (col_key c)))
              (columns (schema_of app ''User'')) = Some (mk_column ''email'' String True)"
    by code_simp
  have f3: "List.find (\<lambda>c. col_unique c \<and> dict_has ?d3 (col_key c) \<and> truthy (dict_get ?d3 (col_key c)))
              (columns (schema_of app ''User'')) = None"
    by code_simp
  have p3: "primary_filter_from app ''User'' ?d3 = [(''id'', PInt 1)]" by code_simp
  have c1: "map_of (synonyms (schema_of app ''User'')) ''publicName'' = None
            \<and> map_of (relationships (schema_of app ''User'')) ''publicName'' = None
            \<and> columns_get (schema_of app ''User'') ''publicName'' = Some (mk_column ''publicName'' String False)"
    by code_simp
  have v1: "dehumanize_if_needed app (mk_column ''publicName'' String False) (dict_get ?d1 ''publicName'')
              = PStr ''ann''"
    by code_simp
  have v2: "(col_key (mk_column ''email'' String True),
             dehumanize_if_needed app (mk_column ''email'' String True)
               (dict_get ?d2 (col_key (mk_column ''email'' String True)))) = (''email'', PStr ''a'')"
    by code_simp
  from filter_from_strategy [of ?d1 "[''publicName'']" app "''User''"] h1
  obtain flt where flt: "filter_from app ''User'' ?d1 = Inr flt"
    and m: "\<And>k. map_of flt k =
            (if k \<in> set [''publicName''] then
               (case map_of (synonyms (schema_of app ''User'')) k of
                  Some c \<Rightarrow> Some (dehumanize_if_needed app c (dict_get ?d1 k))
                | None \<Rightarrow>
                   (case map_of (relationships (schema_of app ''User'')) k of
                      Some t \<Rightarrow> Some (dict_get ?d1 k)
                    | None \<Rightarrow>
                       (case columns_get (schema_of app ''User'') k of
                          Some c \<Rightarrow> Some (dehumanize_if_needed app c (dict_get ?d1 k))
                        | None \<Rightarrow> None)))
             else None)"
    by blast
  have a: "map_of flt ''publicName'' = Some (PStr ''ann'')"
    using m [of "''publicName''"] c1 v1 by simp
  have b: "map_of flt ''id'' = None" "map_of flt ''email'' = None"
    using m [of "''id''"] m [of "''email''"] by simp_all
  have s2: "filter_from app ''User'' ?d2 = Inr [(''email'', PStr ''a'')]"
    using filter_from_strategy [of ?d2 "[]" app "''User''"] h2 f2 v2 by simp
  have s3: "filter_from app ''User'' ?d3 = Inr [(''id'', PInt 1)]"
    using filter_from_strategy [of ?d3 "[]" app "''User''"] h3 f3 p3 by simp
  from flt a b s2 s3 show ?thesis by blast
qed

section \<open>The resolver\<close>

lemma is_substring_Nil: "is_substring [] r"
  by (cases r) simp_all

lemma is_substring_prefix: "is_substring k (k @ r)"
  by (cases k) (simp_all add: is_substring_Nil)

lemma is_substring_append: "is_substring k r \<Longrightarrow> is_substring k (p @ r)"
  by (induction p) simp_all

lemma join_names:
  "\<exists>msg. join (map PStr names) = Inr msg \<and> (\<forall>nm\<in>set names. is_substring nm msg)"
proof (induction names)
  case Nil
  then show ?case by simp
next
  case (Cons a names)
  then obtain msg where msg: "join (map PStr names) = Inr msg"
    and sub: "\<forall>nm\<in>set names. is_substring nm msg" by blast
  show ?case
  proof (cases names)
    case Nil
    then show ?thesis using is_substring_prefix [of a "[]"] by simp
  next
    case (Cons b rest)
    then have "join (map PStr (a # names)) = Inr (a @ '', '' @ msg)"
      using msg by simp
    moreover have "is_substring a (a @ '', '' @ msg)" by (rule is_substring_prefix)
    moreover have "\<forall>nm\<in>set names. is_substring nm (a @ '', '' @ msg)"
      using sub is_substring_append [of _ msg "a @ '', ''"] by simp
    ultimately show ?thesis by simp
  qed
qed

lemma py_set_strings: "py_set (map PStr names) = Inr names"
  by (induction names) simp_all

lemma intersection_empty:
  "set ks \<inter> set dk = {} \<Longrightarrow> intersection e ks dk = []"
  using set_intersection [of e ks dk] by simp

text \<open>
  C4, as the code has it. When a truthy \<^verbatim>\<open>__SEARCH_BY__\<close> lists names of which none is a
  column, a relationship or a synonym of the model, \<^verbatim>\<open>find\<close> raises an \<^verbatim>\<open>EmptyFilterError\<close>
  whose message contains every listed name, and the state it leaves is the state it got: no
  lookup was sent and nothing was assigned.
\<close>

theorem find_empty_filter:
  assumes "dict_has datum SEARCH_BY"
    and "dict_get datum SEARCH_BY = PList (map PStr names)"
    and "names \<noteq> []"
    and "\<forall>nm\<in>set names. nm \<notin> set (map col_attr (columns (schema_of e model)))
                        \<and> nm \<notin> set (map fst (relationships (schema_of e model)))
                        \<and> nm \<notin> set (map fst (synonyms (schema_of e model)))"
  shows "\<exists>msg. find_py e model datum no_autoflush st =
                 (Inl (EmptyFilterError
                         [(''_filter_from'', [''None of filters found among: '' @ msg])]), st)
               \<and> (\<forall>nm\<in>set names. is_substring nm msg)"
proof -
  obtain msg where msg: "join (map PStr names) = Inr msg"
    and sub: "\<forall>nm\<in>set names. is_substring nm msg"
    using join_names by blast
  have i1: "intersection e (map col_attr (columns (schema_of e model))) names = []"
    using assms(4) by (intro intersection_empty) auto
  have i2: "intersection e (map fst (relationships (schema_of e model))) names = []"
    using assms(4) by (intro intersection_empty) auto
  have i3: "intersection e (map fst (synonyms (schema_of e model))) names = []"
    using assms(4) by (intro intersection_empty) auto
  have "filter_from e model datum = Inr []"
    using assms(1-3) by (simp add: filter_from_def py_set_strings i1 i2 i3)
  then have "find_py e model datum no_autoflush st =
                 (Inl (EmptyFilterError
                         [(''_filter_from'', [''None of filters found among: '' @ msg])]), st)"
    using assms(1,2) msg by (simp add: find_py_def add_error_single)
  with sub show ?thesis by blast
qed

text \<open>
  The example of the specification, on a model that has no field \<^verbatim>\<open>missingField\<close>.
\<close>

theorem find_empty_filter_witness:
  "find_py app ''User'' [(SEARCH_BY, PList [PStr ''missingField''])] True one_user =
     (Inl (EmptyFilterError
             [(''_filter_from'', [''None of filters found among: missingField''])]), one_user)"
proof -
  let ?d = "[(SEARCH_BY, PList [PStr ''missingField''])]"
  have h1: "dict_has ?d SEARCH_BY" by code_simp
  have h2: "dict_get ?d SEARCH_BY = PList (map PStr [''missingField''])" by code_simp
  have h3: "[''missingField''] \<noteq> []" by simp
  have h4: "\<forall>nm\<in>set [''missingField'']. nm \<notin> set (map col_attr (columns (schema_of app ''User'')))
                        \<and> nm \<notin> set (map fst (relationships (schema_of app ''User'')))
                        \<and> nm \<notin> set (map fst (synonyms (schema_of app ''User'')))"
    by code_simp
  from find_empty_filter [OF h1 h2 h3 h4, of True one_user]
  obtain msg where "find_py app ''User'' ?d True one_user =
                 (Inl (EmptyFilterError
                         [(''_filter_from'', [''None of filters found among: '' @ msg])]), one_user)"
    by blast
  moreover have "find_py app ''User'' ?d True one_user =
     (Inl (EmptyFilterError
             [(''_filter_from'', [''None of filters found among: missingField''])]), one_user)"
    by code_simp
  ultimately show ?thesis by simp
qed

text \<open>
  C4 as stated fails: \<^verbatim>\<open>__SEARCH_BY__\<close> names only \<^verbatim>\<open>email\<close>, for which the datum has no
  value, and \<^verbatim>\<open>find\<close> raises nothing: it sends the lookup \<^verbatim>\<open>email = None\<close> and returns the
  user it matches.
\<close>

theorem find_missing_value_counterexample:
  "find_py app ''User'' [(SEARCH_BY, PList [PStr ''email''])] True one_user =
     (Inr (PInst 0), one_user\<lparr>queries := 1\<rparr>)"
  by code_simp


section \<open>Assignments to an instance\<close>

lemma add_simps:
  "heap (add r s) = heap s" "next_ref (add r s) = next_ref s"
  "sequences (add r s) = sequences s" "queries (add r s) = queries s"
  "class_of (add r s) = class_of s" "soft_deleted_error e (add r s) = soft_deleted_error e s"
  "getattr e (add r s) = getattr e s"
  by (auto simp: add_def class_of_def soft_deleted_error_def getattr_def fun_eq_iff
      split: option.splits)


lemma map_of_heap_setattr:
  "map_of (heap (setattr e self k v s)) r =
     (if r = self
      then map_option (\<lambda>ob. ob\<lparr>attrs := AList.update (attr_target (schema_of e (cls ob)) k) v (attrs ob)\<rparr>)
             (map_of (heap s) self)
      else map_of (heap s) r)"
  by (auto simp: setattr_def update_conv' split: option.splits)

lemma class_of_setattr: "class_of (setattr e self k v s) r = class_of s r"
  by (auto simp: class_of_def map_of_heap_setattr split: option.splits)

lemma setattr_add: "setattr e self k v (add r s) = add r (setattr e self k v s)"
  by (simp add: setattr_def add_def split: option.splits)


lemma setattr_id_iff:
  "setattr e self k w s = s \<longleftrightarrow>
     (case map_of (heap s) self of
        None \<Rightarrow> True
      | Some ob \<Rightarrow> map_of (attrs ob) (attr_target (schema_of e (cls ob)) k) = Some w)"
proof (cases "map_of (heap s) self")
  case None
  then show ?thesis by (simp add: setattr_def)
next
  case (Some ob)
  let ?t = "attr_target (schema_of e (cls ob)) k"
  let ?ob = "ob\<lparr>attrs := AList.update ?t w (attrs ob)\<rparr>"
  have eq: "setattr e self k w s = s\<lparr>heap := AList.update self ?ob (heap s)\<rparr>"
    using Some by (simp add: setattr_def)
  show ?thesis
  proof
    assume "setattr e self k w s = s"
    then have "heap (s\<lparr>heap := AList.update self ?ob (heap s)\<rparr>) = heap s"
      using eq by simp
    then have "AList.update self ?ob (heap s) = heap s" by simp
    then have "map_of (AList.update self ?ob (heap s)) self = map_of (heap s) self" by simp
    then have "?ob = ob" using Some by (simp add: update_conv')
    then have "attrs ?ob = attrs ob" by simp
    then have "map_of (AList.update ?t w (attrs ob)) ?t = map_of (attrs ob) ?t" by simp
    then show "case map_of (heap s) self of None \<Rightarrow> True
       | Some ob \<Rightarrow> map_of (attrs ob) (attr_target (schema_of e (cls ob)) k) = Some w"
      using Some by (simp add: update_conv')
  next
    assume "case map_of (heap s) self of None \<Rightarrow> True
       | Some ob \<Rightarrow> map_of (attrs ob) (attr_target (schema_of e (cls ob)) k) = Some w"
    then have "map_of (attrs ob) ?t = Some w" using Some by simp
    then have "AList.update ?t w (attrs ob) = attrs ob" by (rule update_triv)
    then have "?ob = ob" by simp
    then have "AList.update self ?ob (heap s) = heap s"
      using Some by (simp add: update_triv)
    then show "setattr e self k w s = s" using eq by simp
  qed
qed

lemma setattr_idem: "setattr e self k w (setattr e self k w s) = setattr e self k w s"
  by (subst setattr_id_iff) (auto simp: map_of_heap_setattr update_conv' split: option.splits)

lemma setattr_id_other:
  assumes "setattr e self k w s = s"
    and "attr_target (schema_of e (class_of s self)) k' \<noteq> attr_target (schema_of e (class_of s self)) k"
  shows "setattr e self k w (setattr e self k' w' s) = setattr e self k' w' s"
proof (cases "map_of (heap s) self")
  case None
  then show ?thesis by (simp add: setattr_def)
next
  case (Some ob)
  then have c: "cls ob = class_of s self" by (simp add: class_of_def)
  from assms(1) Some have "map_of (attrs ob) (attr_target (schema_of e (cls ob)) k) = Some w"
    by (simp add: setattr_id_iff)
  with assms(2) c Some show ?thesis
    by (subst setattr_id_iff) (simp add: map_of_heap_setattr update_conv')
qed

section \<open>Loops\<close>



section \<open>The merge engine without relationship fields\<close>

lemma column_step_outcome:
  "column_step e self sch datum k s =
     Some (apply_outcome e self k
             (case columns_get sch k of
                Some c \<Rightarrow> coerce e c k (dict_get datum k)
              | None \<Rightarrow> Skip) s)"
  by (simp add: column_step_def try_to_set_attribute_coerce apply_outcome_def split: option.splits)


lemma modify_Suc_no_relationships:
  assumes "st = (if with_add opts then add self st0 else st0)"
    and "sch = schema_of e (class_of st0 self)"
    and "dk = datum_keys_with_skipped_keys datum skipped_keys"
    and "\<forall>k\<in>set dk. k \<notin> set (map fst (relationships sch))"
  shows "modify (Suc n) e self datum skipped_keys opts st0 =
     (case (if with_check_not_soft_deleted opts then soft_deleted_error e st0 self else None) of
        Some x \<Rightarrow> Some (Inl x, st)
      | None \<Rightarrow>
          bnd (for_each (intersection e (map col_attr (columns sch)) dk)
                 (column_step e self sch datum) st)
          (\<lambda>u s2.
             bnd (for_each (intersection e (map fst (synonyms sch)) dk)
                    (synonym_step e self sch datum) s2)
             (\<lambda>u s3.
                let (returned, s4) = modify_other_keys e self datum (other_keys e sch dk) s3
                in if returned then Some (Inr PNone, s4)
                   else Some (Inr (PInst self),
                              if with_flush opts then session_flush e s4 else s4))))"
proof -
  have "set (map fst (relationships sch)) \<inter> set dk = {}" using assms(4) by auto
  then have r: "intersection e (map fst (relationships sch)) dk = []"
    by (rule intersection_empty)
  have c: "class_of st self = class_of st0 self" using assms(1) by (simp add: add_simps)
  have d: "soft_deleted_error e st self = soft_deleted_error e st0 self"
    using assms(1) by (simp add: add_simps)
  show ?thesis
    unfolding modify_def run.simps call.case modify_body_def Let_def
    using r c d assms(1-3) by (simp add: bnd_simps cong: option.case_cong)
qed














section \<open>A loop of coercions run twice\<close>

lemma for_each_stable:
  "(\<And>k. k \<in> set ks \<Longrightarrow> f k s = Some (Inr (), s)) \<Longrightarrow> for_each ks f s = Some (Inr (), s)"
  by (induction ks) (simp_all add: bnd_simps)

lemma apply_outcome_class:
  "class_of (snd (apply_outcome e self k oc s)) r = class_of s r"
  by (cases oc) (simp_all add: apply_outcome_def class_of_setattr)

lemma for_each_outcomes:
  assumes "distinct (map (attr_target (schema_of e (class_of s self))) ks)"
    and "for_each ks (\<lambda>k s. Some (apply_outcome e self k (oc k) s)) s = Some (Inr (), s1)"
  shows "class_of s1 self = class_of s self
         \<and> (\<forall>k\<in>set ks. \<forall>w. oc k = Assign w \<longrightarrow> setattr e self k w s1 = s1)
         \<and> (\<forall>k\<in>set ks. \<forall>x. oc k \<noteq> Raise x)
         \<and> (\<forall>k w. attr_target (schema_of e (class_of s self)) k
                      \<notin> attr_target (schema_of e (class_of s self)) ` set ks
                    \<longrightarrow> setattr e self k w s = s \<longrightarrow> setattr e self k w s1 = s1)"
  using assms
proof (induction ks arbitrary: s)
  case Nil
  then show ?case by simp
next
  case (Cons k ks)
  let ?T = "attr_target (schema_of e (class_of s self))"
  let ?F = "\<lambda>k s. Some (apply_outcome e self k (oc k) s)"
  obtain r s' where ap: "apply_outcome e self k (oc k) s = (r, s')"
    by (cases "apply_outcome e self k (oc k) s")
  have c': "class_of s' self = class_of s self"
    using apply_outcome_class [of e self k "oc k" s self] ap by simp
  have nr: "\<forall>x. oc k \<noteq> Raise x"
    using Cons.prems(2) by (auto simp: apply_outcome_def bnd_simps)
  then have r: "r = Inr ()" using ap by (cases "oc k") (auto simp: apply_outcome_def)
  have rest: "for_each ks ?F s' = Some (Inr (), s1)"
    using Cons.prems(2) ap r by (simp add: bnd_simps)
  have d: "distinct (map (attr_target (schema_of e (class_of s' self))) ks)"
    using Cons.prems(1) by (simp add: c')
  note IH = Cons.IH [OF d rest, unfolded c']
  have notin: "?T k \<notin> ?T ` set ks" using Cons.prems(1) by simp
  have k1: "setattr e self k w s1 = s1" if "oc k = Assign w" for w
  proof -
    have "s' = setattr e self k w s" using ap that by (simp add: apply_outcome_def)
    then have "setattr e self k w s' = s'" by (simp add: setattr_idem)
    with IH notin show ?thesis by blast
  qed
  have k2: "setattr e self k' w s1 = s1"
    if "?T k' \<notin> ?T ` set (k # ks)" and "setattr e self k' w s = s" for k' w
  proof -
    have "setattr e self k' w s' = s'"
    proof (cases "oc k")
      case (Assign v)
      then have s': "s' = setattr e self k v s" using ap by (simp add: apply_outcome_def)
      have "?T k \<noteq> ?T k'" using that(1) by auto
      from setattr_id_other [OF that(2) this] show ?thesis by (simp add: s')
    next
      case Skip
      then show ?thesis using ap that(2) by (simp add: apply_outcome_def)
    next
      case (Raise x)
      then show ?thesis using nr by simp
    qed
    moreover have "?T k' \<notin> ?T ` set ks" using that(1) by auto
    ultimately show ?thesis using IH by blast
  qed
  show ?case using IH c' nr k1 k2 by auto
qed


section \<open>The merge engine on scalar fields\<close>

lemma set_iter_Nil: "set_iter rk [] = []"
  by (simp add: set_iter_def)

lemma only_columns_iff:
  "only_columns sch keys \<longleftrightarrow>
     (\<forall>k\<in>set keys. k \<in> set (map col_attr (columns sch))
                    \<and> k \<notin> set (map fst (relationships sch))
                    \<and> k \<notin> set (map fst (synonyms sch)))"
  by (simp add: only_columns_def list_all_iff)

lemma attr_target_not_synonym:
  "k \<notin> set (map fst (synonyms sch)) \<Longrightarrow> attr_target sch k = k"
  using map_of_None_keys [of "synonyms sch" k] by (simp add: attr_target_def)

lemma modify_Suc_only_columns:
  assumes oc: "only_columns (schema_of e (class_of st0 self))
                 (datum_keys_with_skipped_keys datum skipped_keys)"
    and nofl: "\<not> with_flush opts"
  shows "modify (Suc n) e self datum skipped_keys opts st0 =
     (case (if with_check_not_soft_deleted opts then soft_deleted_error e st0 self else None) of
        Some x \<Rightarrow> Some (Inl x, if with_add opts then add self st0 else st0)
      | None \<Rightarrow>
          bnd (for_each (intersection e (map col_attr (columns (schema_of e (class_of st0 self))))
                           (datum_keys_with_skipped_keys datum skipped_keys))
                 (\<lambda>k s. Some (apply_outcome e self k
                                 (case columns_get (schema_of e (class_of st0 self)) k of
                                    Some c \<Rightarrow> coerce e c k (dict_get datum k)
                                  | None \<Rightarrow> Skip) s))
                 (if with_add opts then add self st0 else st0))
          (\<lambda>u s. Some (Inr (PInst self), s)))"
proof -
  let ?sch = "schema_of e (class_of st0 self)"
  let ?dk = "datum_keys_with_skipped_keys datum skipped_keys"
  have all: "\<forall>k\<in>set ?dk. k \<in> set (map col_attr (columns ?sch))
                    \<and> k \<notin> set (map fst (relationships ?sch))
                    \<and> k \<notin> set (map fst (synonyms ?sch))"
    using oc by (simp add: only_columns_iff)
  then have rel: "\<forall>k\<in>set ?dk. k \<notin> set (map fst (relationships ?sch))" by blast
  have "set (map fst (synonyms ?sch)) \<inter> set ?dk = {}" using all by auto
  then have syn: "intersection e (map fst (synonyms ?sch)) ?dk = []"
    by (rule intersection_empty)
  have "filter (\<lambda>k. k \<notin> set (intersection e (map col_attr (columns ?sch)) ?dk)
                   \<and> k \<notin> set (intersection e (map fst (relationships ?sch)) ?dk)
                   \<and> k \<notin> set (intersection e (map fst (synonyms ?sch)) ?dk)) ?dk = []"
    using all by (auto simp: filter_empty_conv set_intersection)
  then have oth: "other_keys e ?sch ?dk = []"
    by (simp add: other_keys_def set_iter_Nil)
  have cs: "column_step e self ?sch datum =
              (\<lambda>k s. Some (apply_outcome e self k
                              (case columns_get ?sch k of
                                 Some c \<Rightarrow> coerce e c k (dict_get datum k)
                               | None \<Rightarrow> Skip) s))"
    by (intro ext) (rule column_step_outcome)
  show ?thesis
    unfolding modify_Suc_no_relationships [OF refl refl refl rel] syn oth cs
    using nofl by (simp add: bnd_simps cong: option.case_cong)
qed

lemma bnd_return_Some:
  "bnd m (\<lambda>u s. Some (Inr c, s)) = Some (Inr v, s1) \<Longrightarrow> v = c \<and> (\<exists>u. m = Some (Inr u, s1))"
  by (auto simp: bnd_def split: option.splits sum.splits prod.splits)

text \<open>
  C9. For a datum of scalar fields only on which \<^verbatim>\<open>modify\<close> returns, a second
  \<^verbatim>\<open>modify\<close> with the same datum returns too and leaves every object as the first call
  left it; it can only fail the soft-delete guard, when the datum itself marked the instance
  as deleted, and then it assigns nothing either.
\<close>

theorem modify_idempotent:
  assumes "only_columns (schema_of e (class_of st self))
             (datum_keys_with_skipped_keys datum skipped_keys)"
    and "\<not> with_flush opts"
    and "modify (Suc n) e self datum skipped_keys opts st = Some (Inr v, s1)"
  shows "\<exists>r s2. modify (Suc m) e self datum skipped_keys opts s1 = Some (r, s2)
           \<and> heap s2 = heap s1
           \<and> (r = Inr v \<or> (\<exists>x. soft_deleted_error e s1 self = Some x \<and> r = Inl x))"
proof -
  let ?sch = "schema_of e (class_of st self)"
  let ?dk = "datum_keys_with_skipped_keys datum skipped_keys"
  let ?ck = "intersection e (map col_attr (columns ?sch)) ?dk"
  let ?oc = "\<lambda>k. case columns_get ?sch k of
                    Some c \<Rightarrow> coerce e c k (dict_get datum k)
                  | None \<Rightarrow> Skip"
  let ?F = "\<lambda>self k s. Some (apply_outcome e self k (?oc k) s)"
  let ?st = "if with_add opts then add self st else st"
  have all: "\<forall>k\<in>set ?dk. k \<in> set (map col_attr (columns ?sch))
                    \<and> k \<notin> set (map fst (relationships ?sch))
                    \<and> k \<notin> set (map fst (synonyms ?sch))"
    using assms(1) by (simp add: only_columns_iff)
  have first: "(case (if with_check_not_soft_deleted opts then soft_deleted_error e st self else None) of
        Some x \<Rightarrow> Some (Inl x, ?st)
      | None \<Rightarrow> bnd (for_each ?ck (?F self) ?st) (\<lambda>u s. Some (Inr (PInst self), s)))
      = Some (Inr v, s1)"
    using assms(3) unfolding modify_Suc_only_columns [OF assms(1,2)] .
  then have chk: "(if with_check_not_soft_deleted opts then soft_deleted_error e st self else None) = None"
    by (auto split: option.splits)
  with first have b: "bnd (for_each ?ck (?F self) ?st) (\<lambda>u s. Some (Inr (PInst self), s)) = Some (Inr v, s1)"
    by simp
  from bnd_return_Some [OF b] have v: "v = PInst self"
    and loop: "for_each ?ck (?F self) ?st = Some (Inr (), s1)" by auto
  have cst: "class_of ?st self = class_of st self" by (simp add: add_simps)
  have tid: "attr_target ?sch k = k" if "k \<in> set ?ck" for k
    using that all by (intro attr_target_not_synonym) (auto simp: set_intersection)
  have "map (attr_target ?sch) ?ck = ?ck" by (rule map_idI) (rule tid)
  then have dist: "distinct (map (attr_target (schema_of e (class_of ?st self))) ?ck)"
    by (simp add: cst distinct_intersection)
  from for_each_outcomes [OF dist loop]
  have c1: "class_of s1 self = class_of st self"
    and stab: "\<forall>k\<in>set ?ck. \<forall>w. ?oc k = Assign w \<longrightarrow> setattr e self k w s1 = s1"
    and nor: "\<forall>k\<in>set ?ck. \<forall>x. ?oc k \<noteq> Raise x"
    by (simp_all add: cst)
  let ?s2 = "if with_add opts then add self s1 else s1"
  have oc2: "only_columns (schema_of e (class_of s1 self)) ?dk" using assms(1) by (simp add: c1)
  have second: "modify (Suc m) e self datum skipped_keys opts s1 =
      (case (if with_check_not_soft_deleted opts then soft_deleted_error e s1 self else None) of
        Some x \<Rightarrow> Some (Inl x, ?s2)
      | None \<Rightarrow> bnd (for_each ?ck (?F self) ?s2) (\<lambda>u s. Some (Inr (PInst self), s)))"
    unfolding modify_Suc_only_columns [OF oc2 assms(2)] c1 ..
  have h2: "heap ?s2 = heap s1" by (simp add: add_simps)
  show ?thesis
  proof (cases "if with_check_not_soft_deleted opts then soft_deleted_error e s1 self else None")
    case (Some x)
    then have "soft_deleted_error e s1 self = Some x" by (simp split: if_splits)
    then show ?thesis using second Some h2 by auto
  next
    case None
    have "?F self k ?s2 = Some (Inr (), ?s2)" if "k \<in> set ?ck" for k
    proof (cases "?oc k")
      case (Assign w)
      then have "setattr e self k w s1 = s1" using stab that by blast
      then have "setattr e self k w ?s2 = ?s2" by (simp add: setattr_add)
      then show ?thesis using Assign by (simp add: apply_outcome_def)
    next
      case Skip
      then show ?thesis by (simp add: apply_outcome_def)
    next
      case (Raise x)
      then show ?thesis using nor that by blast
    qed
    then have "for_each ?ck (?F self) ?s2 = Some (Inr (), ?s2)" by (rule for_each_stable)
    then have "modify (Suc m) e self datum skipped_keys opts s1 = Some (Inr v, ?s2)"
      using second None v by (simp add: bnd_simps)
    then show ?thesis using h2 by blast
  qed
qed

text \<open>
  Twice the same datum on the user: the second call returns the instance and the state of
  the first call.
\<close>

theorem modify_idempotent_witness:
  "modify 1 app 0 [(''age'', PStr ''12''), (''publicName'', PStr '' bob '')] [] default_options one_user =
     Some (Inr (PInst 0),
       one_user\<lparr>heap := [(0, \<lparr>cls = ''User'',
         attrs = [(''id'', PInt 1), (''publicName'', PStr ''bob''),
                  (''age'', PDecimal (Finite False 12 0))]\<rparr>)]\<rparr>)
   \<and> (\<exists>r s2. modify 1 app 0 [(''age'', PStr ''12''), (''publicName'', PStr '' bob '')] [] default_options
         (one_user\<lparr>heap := [(0, \<lparr>cls = ''User'',
             attrs = [(''id'', PInt 1), (''publicName'', PStr ''bob''),
                      (''age'', PDecimal (Finite False 12 0))]\<rparr>)]\<rparr>) = Some (r, s2)
        \<and> heap s2 = [(0, \<lparr>cls = ''User'',
             attrs = [(''id'', PInt 1), (''publicName'', PStr ''bob''),
                      (''age'', PDecimal (Finite False 12 0))]\<rparr>)]
        \<and> r = Inr (PInst 0))"
proof -
  let ?d = "[(''age'', PStr ''12''), (''publicName'', PStr '' bob '')]"
  let ?s1 = "one_user\<lparr>heap := [(0, \<lparr>cls = ''User'',
         attrs = [(''id'', PInt 1), (''publicName'', PStr ''bob''),
                  (''age'', PDecimal (Finite False 12 0))]\<rparr>)]\<rparr>"
  have h1: "only_columns (schema_of app (class_of one_user 0)) (datum_keys_with_skipped_keys ?d [])"
    by code_simp
  have h2: "\<not> with_flush default_options" by code_simp
  have h3: "modify (Suc 0) app 0 ?d [] default_options one_user = Some (Inr (PInst 0), ?s1)"
    by code_simp
  have sd: "soft_deleted_error app ?s1 0 = None" by code_simp
  have hp: "heap ?s1 = [(0, \<lparr>cls = ''User'',
             attrs = [(''id'', PInt 1), (''publicName'', PStr ''bob''),
                      (''age'', PDecimal (Finite False 12 0))]\<rparr>)]"
    by simp
  from modify_idempotent [OF h1 h2 h3, of 0] sd hp h3 show ?thesis by auto
qed

section \<open>Construction\<close>










section \<open>The deferred identifier\<close>

lemma dict_keys_update_present:
  "dict_has d k \<Longrightarrow> dict_keys (AList.update k v d) = dict_keys d"
  using map_of_None_keys [of d k] by (simp add: dict_keys_def dict_has_def update_keys)


















section \<open>Join records\<close>













end
